theory Spec2Isabelle
  imports Main
begin

section \<open>JavaScript values, strings and exceptions\<close>

text \<open>
  The service is one file, \<^verbatim>\<open>index.js\<close>. Its strings are modelled as lists of ASCII
  characters; a field that may hold any JSON value is a \<open>jsval\<close>; an exception that the
  source can throw is a value of \<open>error\<close>.
\<close>

datatype jsval = Undefined | Null | Num int | Str string

datatype error = TypeError | RangeError | SyntaxError | HttpError | IOError

text \<open>The truthiness test of \<^verbatim>\<open>!x\<close>, \<^verbatim>\<open>x || y\<close> and \<^verbatim>\<open>if (x)\<close>.\<close>

fun truthy :: "jsval \<Rightarrow> bool" where
  "truthy Undefined = False"
| "truthy Null = False"
| "truthy (Num n) = (n \<noteq> 0)"
| "truthy (Str s) = (s \<noteq> [])"

text \<open>\<^verbatim>\<open>typeof x === 'string'\<close>.\<close>

fun isString :: "jsval \<Rightarrow> bool" where
  "isString (Str s) = True"
| "isString v = False"

text \<open>\<^verbatim>\<open>s.startsWith(p)\<close> and \<^verbatim>\<open>s.includes(t)\<close> on strings.\<close>

fun startsWith :: "string \<Rightarrow> string \<Rightarrow> bool" where
  "startsWith s [] = True"
| "startsWith [] (p # ps) = False"
| "startsWith (c # cs) (p # ps) = (c = p \<and> startsWith cs ps)"

fun str_includes :: "string \<Rightarrow> string \<Rightarrow> bool" where
  "str_includes [] t = (t = [])"
| "str_includes (c # cs) t = (startsWith (c # cs) t \<or> str_includes cs t)"

text \<open>
  The characters \<^verbatim>\<open>\s\<close> matches and \<^verbatim>\<open>trim()\<close> removes, within ASCII: TAB, LF, VT,
  FF, CR and SPACE.
\<close>

definition isSpace :: "char \<Rightarrow> bool" where
  "isSpace c = (c \<in> set [CHR 0x09, CHR 0x0A, CHR 0x0B, CHR 0x0C, CHR 0x0D, CHR 0x20])"

definition toUpperChar :: "char \<Rightarrow> char" where
  "toUpperChar c =
     (case map_of (zip ''abcdefghijklmnopqrstuvwxyz'' ''ABCDEFGHIJKLMNOPQRSTUVWXYZ'') c of
        Some u \<Rightarrow> u
      | None \<Rightarrow> c)"

definition toUpperCase :: "string \<Rightarrow> string" where
  "toUpperCase s = map toUpperChar s"

definition toLowerChar :: "char \<Rightarrow> char" where
  "toLowerChar c =
     (case map_of (zip ''ABCDEFGHIJKLMNOPQRSTUVWXYZ'' ''abcdefghijklmnopqrstuvwxyz'') c of
        Some l \<Rightarrow> l
      | None \<Rightarrow> c)"

definition toLowerCase :: "string \<Rightarrow> string" where
  "toLowerCase s = map toLowerChar s"

definition trimEnd :: "string \<Rightarrow> string" where
  "trimEnd s = rev (dropWhile isSpace (rev s))"

definition trim :: "string \<Rightarrow> string" where
  "trim s = trimEnd (dropWhile isSpace s)"

subsection \<open>Global replacement by a regular expression\<close>

text \<open>
  \<^verbatim>\<open>s.replace(/re/g, rep)\<close> scans the subject from the left. A \<open>matcher\<close> stands for the
  regular expression tried at the current position: it returns the length of the match
  there, if there is one. After a match the scan resumes behind it; after an empty match
  the next character is copied.
\<close>

type_synonym matcher = "string \<Rightarrow> nat option"

fun replaceAll :: "matcher \<Rightarrow> string \<Rightarrow> string \<Rightarrow> string" where
  "replaceAll m rep [] = (case m [] of Some n \<Rightarrow> rep | None \<Rightarrow> [])"
| "replaceAll m rep (c # cs) =
     (case m (c # cs) of
        None \<Rightarrow> c # replaceAll m rep cs
      | Some n \<Rightarrow>
          (if n = 0 then rep @ c # replaceAll m rep cs
           else rep @ replaceAll m rep (drop (n - 1) cs)))"

text \<open>A literal pattern such as \<^verbatim>\<open>/&amp;/\<close> or \<^verbatim>\<open>/_/\<close>.\<close>

definition matchLiteral :: "string \<Rightarrow> matcher" where
  "matchLiteral p s = (if startsWith s p then Some (length p) else None)"

text \<open>
  \<^verbatim>\<open>/\s*\([^)]*\)/\<close>: the longest run of white space, an opening parenthesis, everything
  up to the next closing parenthesis, and that parenthesis. Backtracking finds no other
  match: a shorter run of white space is followed by white space, and the text between the
  parentheses cannot be shortened to end at a closing parenthesis.
\<close>

definition matchParenthesized :: matcher where
  "matchParenthesized s =
     (case dropWhile isSpace s of
        [] \<Rightarrow> None
      | c # r \<Rightarrow>
          (if c = CHR ''('' \<and> CHR '')'' \<in> set r
           then Some (length (takeWhile isSpace s) + 1
                      + length (takeWhile (\<lambda>x. x \<noteq> CHR '')'') r) + 1)
           else None))"

text \<open>\<^verbatim>\<open>/\s+/\<close>: a non-empty, longest run of white space.\<close>

definition matchSpaces :: matcher where
  "matchSpaces s =
     (if takeWhile isSpace s = [] then None else Some (length (takeWhile isSpace s)))"

section \<open>Name formatter\<close>

text \<open>Lines 241 to 257 of \<^verbatim>\<open>formatJobName\<close>, on a title that is a string.\<close>

definition formatTitle :: "string \<Rightarrow> string" where
  "formatTitle jobName =
     (let f1 = replaceAll (matchLiteral ''&amp;'') ''&'' jobName;
          f2 = replaceAll (matchLiteral ''&lt;'') ''<'' f1;
          f3 = replaceAll (matchLiteral ''&gt;'') ''>'' f2;
          f4 = replaceAll (matchLiteral ''&quot;'') [CHR 0x22] f3;
          f5 = replaceAll (matchLiteral ''&#39;'') [CHR 0x27] f4;
          f6 = replaceAll matchParenthesized [] f5;
          f7 = replaceAll (matchLiteral ''_'') '' - '' f6;
          f8 = toUpperCase f7;
          f9 = trim (replaceAll matchSpaces '' '' f8)
      in f9)"

text \<open>
  \<^verbatim>\<open>formatJobName(jobNo, jobName)\<close>. Calling \<^verbatim>\<open>replace\<close> on a title that is not a string
  throws a TypeError.
\<close>

definition formatJobName :: "string \<Rightarrow> jsval \<Rightarrow> error + string" where
  "formatJobName jobNo jobName =
     (case jobName of
        Str title \<Rightarrow> Inr (jobNo @ '' - '' @ formatTitle title)
      | _ \<Rightarrow> Inl TypeError)"

subsection \<open>The formatter as the specification words it\<close>

text \<open>Replace every occurrence of \<open>p\<close> by \<open>r\<close>, from the left.\<close>

fun subst :: "string \<Rightarrow> string \<Rightarrow> string \<Rightarrow> string" where
  "subst p r [] = []"
| "subst p r (c # cs) =
     (if startsWith (c # cs) p then r @ subst p r (drop (length p - 1) cs)
      else c # subst p r cs)"

definition decodeEntities :: "string \<Rightarrow> string" where
  "decodeEntities t =
     subst ''&#39;'' [CHR 0x27] (subst ''&quot;'' [CHR 0x22] (subst ''&gt;'' ''>''
       (subst ''&lt;'' ''<'' (subst ''&amp;'' ''&'' t))))"

text \<open>
  Strip every parenthesized substring, from an opening parenthesis to the next closing one.
  The text before the opening parenthesis is kept as \<open>keep\<close> returns it.
\<close>

function stripGroupsBy :: "(string \<Rightarrow> string) \<Rightarrow> string \<Rightarrow> string" where
  "stripGroupsBy keep s =
     (case dropWhile (\<lambda>c. c \<noteq> CHR ''('') s of
        [] \<Rightarrow> s
      | c # r \<Rightarrow>
          (if CHR '')'' \<in> set r
           then keep (takeWhile (\<lambda>c. c \<noteq> CHR ''('') s)
                  @ stripGroupsBy keep (tl (dropWhile (\<lambda>c. c \<noteq> CHR '')'') r))
           else s))"
  by pat_completeness auto
termination
proof (relation "measure (\<lambda>(keep, s). length s)", goal_cases)
  case 1
  show ?case by simp
next
  case (2 keep s c r)
  have "length (c # r) \<le> length s"
    using 2(1) length_dropWhile_le[of "\<lambda>c. c \<noteq> CHR ''(''" s] by simp
  moreover have "length (tl (dropWhile (\<lambda>c. c \<noteq> CHR '')'') r)) \<le> length r"
    using length_dropWhile_le[of "\<lambda>c. c \<noteq> CHR '')''" r] by simp
  ultimately show ?case by simp
qed

declare stripGroupsBy.simps [simp del]

text \<open>Step 2 as the specification has it: the parenthesized substrings alone.\<close>

definition stripParenthesized :: "string \<Rightarrow> string" where
  "stripParenthesized s = stripGroupsBy (\<lambda>a. a) s"

text \<open>Step 2 with the white space that directly precedes a parenthesized substring.\<close>

definition stripParenthesizedAndSpace :: "string \<Rightarrow> string" where
  "stripParenthesizedAndSpace s = stripGroupsBy trimEnd s"

definition underscoresToDashes :: "string \<Rightarrow> string" where
  "underscoresToDashes s = concat (map (\<lambda>c. if c = CHR ''_'' then '' - '' else [c]) s)"

fun collapseSpaces :: "string \<Rightarrow> string" where
  "collapseSpaces [] = []"
| "collapseSpaces [c] = [if isSpace c then CHR '' '' else c]"
| "collapseSpaces (c # d # cs) =
     (if isSpace c
      then (if isSpace d then collapseSpaces (d # cs) else CHR '' '' # collapseSpaces (d # cs))
      else c # collapseSpaces (d # cs))"

text \<open>The six steps of the specification, in its order and its words.\<close>

definition formatName_spec :: "string \<Rightarrow> string \<Rightarrow> string" where
  "formatName_spec identifier title =
     identifier @ '' - ''
       @ trim (collapseSpaces (toUpperCase (underscoresToDashes
           (stripParenthesized (decodeEntities title)))))"

text \<open>The same steps, with step 2 taking the preceding white space too.\<close>

definition normalizedTitle :: "string \<Rightarrow> string" where
  "normalizedTitle title =
     trim (collapseSpaces (toUpperCase (underscoresToDashes
       (stripParenthesizedAndSpace (decodeEntities title)))))"

section \<open>Destination router\<close>

text \<open>
  \<^verbatim>\<open>global.folderIds\<close> is either never assigned (\<open>None\<close>) or an object literal, kept as
  an association list from key to value; a value is \<open>None\<close> when the listing entry had
  neither \<^verbatim>\<open>path_lower\<close> nor \<^verbatim>\<open>id\<close>.
\<close>

type_synonym folder_ids = "(string \<times> string option) list"

definition KEY_PROJECT_JOBS :: string where
  "KEY_PROJECT_JOBS = ''ISA PROJECT JOBS (2-5)''"

definition KEY_SURVEY :: string where
  "KEY_SURVEY = ''ISA SURVEY PTY LTD (7-8)''"

definition KEY_SURVEYORS :: string where
  "KEY_SURVEYORS = ''ISA SURVEYORS PTY LTD (6 or 9)''"

text \<open>
  \<^verbatim>\<open>const folderPath = global.folderIds[key]; if (!folderPath) return null; return folderPath;\<close>
  Reading a property of \<^verbatim>\<open>undefined\<close> throws a TypeError.
\<close>

definition folderPathFor :: "folder_ids option \<Rightarrow> string \<Rightarrow> error + string option" where
  "folderPathFor folderIds key =
     (case folderIds of
        None \<Rightarrow> Inl TypeError
      | Some obj \<Rightarrow>
          (case map_of obj key of
             Some (Some path) \<Rightarrow> (if path = [] then Inr None else Inr (Some path))
           | _ \<Rightarrow> Inr None))"

fun selectDestinationFolder :: "folder_ids option \<Rightarrow> jsval \<Rightarrow> error + string option" where
  "selectDestinationFolder folderIds (Str (p # rest)) =
     (if p \<in> set ''2345'' then folderPathFor folderIds KEY_PROJECT_JOBS
      else if p \<in> set ''78'' then folderPathFor folderIds KEY_SURVEY
      else if p \<in> set ''69'' then folderPathFor folderIds KEY_SURVEYORS
      else Inr None)"
| "selectDestinationFolder folderIds _ = Inr None"

text \<open>The path a category resolves to in a mapping object, if any.\<close>

definition resolvedPath :: "folder_ids \<Rightarrow> string \<Rightarrow> string option" where
  "resolvedPath obj key =
     (case map_of obj key of
        Some (Some path) \<Rightarrow> (if path = [] then None else Some path)
      | _ \<Rightarrow> None)"

text \<open>A string holds a parenthesized substring: an opening parenthesis with a closing one behind it.\<close>

definition hasGroup :: "string \<Rightarrow> bool" where
  "hasGroup s = (case dropWhile (\<lambda>c. c \<noteq> CHR ''('') s of [] \<Rightarrow> False | c # r \<Rightarrow> CHR '')'' \<in> set r)"

section \<open>The services the program calls\<close>

text \<open>
  A call to a service either rejects (axios throws, a file operation fails) or resolves
  with data. The calls made so far are kept in a trace; every service answers as a function
  of that trace and of the call, so its answers may depend on everything done before.
\<close>

datatype ('e, 'a) reply = Rejected 'e | Resolved 'a

text \<open>The credential file \<^verbatim>\<open>wfx_tokens.json\<close>, and the body of a token response.\<close>

record tokens =
  access_token :: jsval
  refresh_token :: jsval
  expires_in :: "int option"
  obtained_at :: "int option"

text \<open>
  A job of the tracking system as the loop reads it. \<open>DateCreated\<close> is the time value of
  \<^verbatim>\<open>new Date(job.DateCreatedUtc || job.DateCreated)\<close>; \<open>None\<close> is an invalid date.
\<close>

record job =
  ID :: jsval
  Name :: jsval
  DateCreated :: "int option"

text \<open>An entry of a folder listing.\<close>

record entry =
  e_tag :: string
  e_name :: string
  e_path_lower :: "string option"
  e_id :: "string option"

record metadata =
  md_name :: string
  md_path_display :: string

text \<open>
  What \<^verbatim>\<open>checkFolderExists\<close> reads of a rejected lookup:
  \<^verbatim>\<open>error.response?.data?.error?.['.tag']\<close> and \<^verbatim>\<open>error.response?.data?.error?.path?.['.tag']\<close>.
\<close>

record lookup_error =
  err_tag :: "string option"
  err_path_tag :: "string option"

record member =
  m_email :: "string option"
  m_team_member_id :: string

datatype call =
    DateNow int
  | TokenPost jsval
  | WriteTokenFile tokens
  | WfxGet jsval int int
  | TeamMembersList
  | GetMetadata string
  | ListFolder string
  | CopyV2 string string
  | CreateFolderV2 string

text \<open>
  The environment: the clock, the token endpoint, the credential file, the tracking system,
  the storage service, and the regular expression engine for patterns outside the literal
  fragment modelled below. A rejected copy or create carries
  \<^verbatim>\<open>error.response?.data?.error_summary\<close>; a resolved one carries \<^verbatim>\<open>data.metadata\<close>.
  The tracking system's reply is the job list that lines 340 to 381 extract from the body
  (XML or JSON; a body that parses as neither gives no jobs).
\<close>

record env =
  clock :: "call list \<Rightarrow> int"
  token_post :: "call list \<Rightarrow> jsval \<Rightarrow> (unit, tokens) reply"
  write_file :: "call list \<Rightarrow> tokens \<Rightarrow> bool"
  wfx_get :: "call list \<Rightarrow> jsval \<Rightarrow> int \<Rightarrow> int \<Rightarrow> (unit, job list) reply"
  team_members_list :: "call list \<Rightarrow> (unit, member list option) reply"
  get_metadata :: "call list \<Rightarrow> string \<Rightarrow> (lookup_error, unit) reply"
  list_folder :: "call list \<Rightarrow> string \<Rightarrow> (unit, entry list option) reply"
  copy_v2 :: "call list \<Rightarrow> string \<Rightarrow> string \<Rightarrow> (string option, metadata option) reply"
  create_folder_v2 :: "call list \<Rightarrow> string \<Rightarrow> (string option, metadata option) reply"
  regexp :: "string \<Rightarrow> (string \<Rightarrow> bool) option"

text \<open>The mutable state of the process, with the credential file and the trace.\<close>

record state =
  folderIds :: "folder_ids option"
  teamMemberId :: jsval
  lastChecked :: int
  tokenFile :: "tokens option"
  trace :: "call list"

definition TEMPLATE_PATH :: string where
  "TEMPLATE_PATH = ''ISA SURVEYORS PTY LTD (6 or 9)/00_ISA SURVEYORS JOB FOLDER TEMPLATE''"

section \<open>Token manager\<close>

text \<open>\<^verbatim>\<open>readTokens\<close>: the parsed file, or \<^verbatim>\<open>{}\<close> when it cannot be read.\<close>

definition readTokens :: "state \<Rightarrow> tokens" where
  "readTokens st =
     (case tokenFile st of
        Some t \<Rightarrow> t
      | None \<Rightarrow> \<lparr>access_token = Undefined, refresh_token = Undefined,
                  expires_in = None, obtained_at = None\<rparr>)"

text \<open>
  \<^verbatim>\<open>tokens.obtained_at + tokens.expires_in * 1000 - 60000\<close>; \<open>None\<close> is NaN, the value when a
  field is absent.
\<close>

definition tokenExpiry :: "tokens \<Rightarrow> int option" where
  "tokenExpiry t =
     (case obtained_at t of
        None \<Rightarrow> None
      | Some obtained \<Rightarrow>
          (case expires_in t of
             None \<Rightarrow> None
           | Some expires \<Rightarrow> Some (obtained + expires * 1000 - 60000)))"

text \<open>\<^verbatim>\<open>!tokens.access_token || tokenExpiry < now\<close>; a comparison with NaN is false.\<close>

definition needsRefresh :: "tokens \<Rightarrow> int \<Rightarrow> bool" where
  "needsRefresh t now =
     (\<not> truthy (access_token t)
      \<or> (case tokenExpiry t of None \<Rightarrow> False | Some expiry \<Rightarrow> expiry < now))"

text \<open>
  \<^verbatim>\<open>getValidAccessToken\<close>, with \<^verbatim>\<open>writeTokens\<close> inlined: the response body is stamped with
  a new clock reading and written to the file. A rejected exchange or a failed write is
  rethrown.
\<close>

definition getValidAccessToken :: "env \<Rightarrow> state \<Rightarrow> (error + jsval) \<times> state" where
  "getValidAccessToken env st =
     (let tokens = readTokens st;
          now = clock env (trace st);
          st1 = st\<lparr>trace := trace st @ [DateNow now]\<rparr>
      in if needsRefresh tokens now
         then (let st2 = st1\<lparr>trace := trace st1 @ [TokenPost (refresh_token tokens)]\<rparr>
               in case token_post env (trace st1) (refresh_token tokens) of
                    Rejected _ \<Rightarrow> (Inl HttpError, st2)
                  | Resolved data \<Rightarrow>
                      (let stamp = clock env (trace st2);
                           stamped = data\<lparr>obtained_at := Some stamp\<rparr>;
                           st3 = st2\<lparr>trace := trace st2 @ [DateNow stamp]\<rparr>;
                           st4 = st3\<lparr>trace := trace st3 @ [WriteTokenFile stamped]\<rparr>
                       in if write_file env (trace st3) stamped
                          then (Inr (access_token stamped), st4\<lparr>tokenFile := Some stamped\<rparr>)
                          else (Inl IOError, st4)))
         else (Inr (access_token tokens), st1))"

section \<open>Existence and duplicate checker\<close>

text \<open>\<^verbatim>\<open>checkFolderExists\<close>: both branches of the handler return false.\<close>

definition checkFolderExists :: "env \<Rightarrow> call list \<Rightarrow> string \<Rightarrow> string \<Rightarrow> bool \<times> call list" where
  "checkFolderExists env tr parentPath folderName =
     (let path = parentPath @ ''/'' @ folderName;
          tr' = tr @ [GetMetadata path]
      in case get_metadata env tr path of
           Resolved _ \<Rightarrow> (True, tr')
         | Rejected e \<Rightarrow>
             (if err_tag e = Some ''path'' \<and> err_path_tag e = Some ''not_found''
              then (False, tr')
              else (False, tr')))"

text \<open>
  The characters with a meaning in the syntax of a regular expression. A base job number
  without them, interpolated into \<^verbatim>\<open>new RegExp(`^${baseJobNo}\\s*-\\s*`, 'i')\<close>, matches
  itself, ignoring case.
\<close>

definition isSyntaxChar :: "char \<Rightarrow> bool" where
  "isSyntaxChar c = (c \<in> set [CHR ''^'', CHR ''$'', CHR 0x5C, CHR ''.'', CHR ''*'', CHR ''+'',
     CHR ''?'', CHR ''('', CHR '')'', CHR ''['', CHR '']'', CHR ''{'', CHR ''}'', CHR ''|''])"

text \<open>
  \<^verbatim>\<open>/^base\s*-\s*/i.test(name)\<close> for a literal base: the name starts with the base, ignoring
  case; white space may follow; then a hyphen.
\<close>

definition matchesBase :: "string \<Rightarrow> string \<Rightarrow> bool" where
  "matchesBase base name =
     (toUpperCase (take (length base) name) = toUpperCase base
      \<and> (case dropWhile isSpace (drop (length base) name) of
            [] \<Rightarrow> False
          | c # rest \<Rightarrow> c = CHR ''-''))"

text \<open>The listed folders whose names match the pattern of a literal base job number.\<close>

definition siblingsOf :: "string \<Rightarrow> entry list \<Rightarrow> entry list" where
  "siblingsOf base entries = filter (\<lambda>e. e_tag e = ''folder'' \<and> matchesBase base (e_name e)) entries"

text \<open>
  The pattern of line 425. A base with syntax characters is a regular expression of its
  own: the engine of the environment decides what it matches, or that it is a SyntaxError.
\<close>

definition baseJobFolderPattern :: "env \<Rightarrow> string \<Rightarrow> error + (string \<Rightarrow> bool)" where
  "baseJobFolderPattern env baseJobNo =
     (if list_ex isSyntaxChar baseJobNo
      then (case regexp env (''^'' @ baseJobNo @ [CHR 0x5C] @ ''s*-'' @ [CHR 0x5C] @ ''s*'') of
              None \<Rightarrow> Inl SyntaxError
            | Some test \<Rightarrow> Inr test)
      else Inr (matchesBase baseJobNo))"

text \<open>\<^verbatim>\<open>checkExistingJobFolders\<close>: a failed listing is an empty result.\<close>

definition checkExistingJobFolders ::
  "env \<Rightarrow> call list \<Rightarrow> string \<Rightarrow> (string \<Rightarrow> bool) \<Rightarrow> string list \<times> call list" where
  "checkExistingJobFolders env tr parentPath pattern =
     (let tr' = tr @ [ListFolder parentPath]
      in case list_folder env tr parentPath of
           Rejected _ \<Rightarrow> ([], tr')
         | Resolved listed \<Rightarrow>
             (let entries = (case listed of None \<Rightarrow> [] | Some es \<Rightarrow> es)
              in (map e_name (filter (\<lambda>e. e_tag e = ''folder'' \<and> pattern (e_name e)) entries),
                  tr')))"

section \<open>Folder provisioner\<close>

text \<open>\<^verbatim>\<open>error.response?.data?.error_summary?.includes(t)\<close>.\<close>

definition summaryIncludes :: "string option \<Rightarrow> string \<Rightarrow> bool" where
  "summaryIncludes summary t = (case summary of None \<Rightarrow> False | Some s \<Rightarrow> str_includes s t)"

text \<open>\<^verbatim>\<open>createFolder\<close>: the result is the metadata, or \<open>None\<close> for \<^verbatim>\<open>null\<close>.\<close>

definition createFolder ::
  "env \<Rightarrow> call list \<Rightarrow> string \<Rightarrow> string \<Rightarrow> metadata option \<times> call list" where
  "createFolder env tr parentPath folderName =
     (let path = parentPath @ ''/'' @ folderName;
          tr' = tr @ [CreateFolderV2 path]
      in case create_folder_v2 env tr path of
           Resolved (Some md) \<Rightarrow> (Some md, tr')
         | Resolved None \<Rightarrow> (None, tr')
         | Rejected summary \<Rightarrow>
             (if summaryIncludes summary ''path/conflict/folder''
              then (Some \<lparr>md_name = folderName, md_path_display = path\<rparr>, tr')
              else (None, tr')))"

text \<open>\<^verbatim>\<open>createFolderFromTemplate\<close>.\<close>

definition createFolderFromTemplate ::
  "env \<Rightarrow> call list \<Rightarrow> string \<Rightarrow> string \<Rightarrow> metadata option \<times> call list" where
  "createFolderFromTemplate env tr parentPath folderName =
     (let path = parentPath @ ''/'' @ folderName;
          tr' = tr @ [CopyV2 TEMPLATE_PATH path]
      in case copy_v2 env tr TEMPLATE_PATH path of
           Resolved (Some md) \<Rightarrow> (Some md, tr')
         | Resolved None \<Rightarrow> createFolder env tr' parentPath folderName
         | Rejected summary \<Rightarrow>
             (if summaryIncludes summary ''path/conflict''
              then (Some \<lparr>md_name = folderName, md_path_display = path\<rparr>, tr')
              else if summaryIncludes summary ''path/not_found''
              then createFolder env tr' parentPath folderName
              else createFolder env tr' parentPath folderName))"

section \<open>Sync loop\<close>

text \<open>
  Lines 423 to 441, for a routed job whose folder does not exist yet: the check for a
  folder of the base job number when the job number has a suffix, and the provisioning.
  The result is the exception thrown, if any, and the trace.
\<close>

definition provisionUnlessSibling ::
  "env \<Rightarrow> call list \<Rightarrow> string \<Rightarrow> string \<Rightarrow> string \<Rightarrow> error option \<times> call list" where
  "provisionUnlessSibling env tr jobNo destFolderPath jobFolderName =
     (if CHR ''_'' \<in> set jobNo
      then (case baseJobFolderPattern env (takeWhile (\<lambda>c. c \<noteq> CHR ''_'') jobNo) of
              Inl e \<Rightarrow> (Some e, tr)
            | Inr pattern \<Rightarrow>
                (case checkExistingJobFolders env tr destFolderPath pattern of
                   (existingFolders, tr2) \<Rightarrow>
                     (if existingFolders \<noteq> [] then (None, tr2)
                      else (None, snd (createFolderFromTemplate env tr2
                                         destFolderPath jobFolderName)))))
      else (None, snd (createFolderFromTemplate env tr destFolderPath jobFolderName)))"

text \<open>Lines 416 to 441: the exact-name check first.\<close>

definition screenAndProvision ::
  "env \<Rightarrow> call list \<Rightarrow> string \<Rightarrow> string \<Rightarrow> string \<Rightarrow> error option \<times> call list" where
  "screenAndProvision env tr jobNo destFolderPath jobFolderName =
     (case checkFolderExists env tr destFolderPath jobFolderName of
        (True, tr1) \<Rightarrow> (None, tr1)
      | (False, tr1) \<Rightarrow> provisionUnlessSibling env tr1 jobNo destFolderPath jobFolderName)"

text \<open>
  The body of the loop over the jobs, lines 389 to 441, for one job: the exception it
  throws, if any, the set \<^verbatim>\<open>processedJobs\<close> and the trace. \<^verbatim>\<open>jobNo.split('_')\<close> throws a
  TypeError when the ID is not a string, \<^verbatim>\<open>created.toISOString()\<close> a RangeError when the
  date is invalid.
\<close>

definition processJob ::
  "env \<Rightarrow> folder_ids option \<Rightarrow> job \<Rightarrow> string list \<Rightarrow> call list
     \<Rightarrow> error option \<times> string list \<times> call list" where
  "processJob env fids j processedJobs tr =
     (case ID j of
        Str jobNo \<Rightarrow>
          (if jobNo \<in> set processedJobs then (None, processedJobs, tr)
           else
             (case DateCreated j of
                None \<Rightarrow> (Some RangeError, processedJobs @ [jobNo], tr)
              | Some created \<Rightarrow>
                  (case selectDestinationFolder fids (Str jobNo) of
                     Inl e \<Rightarrow> (Some e, processedJobs @ [jobNo], tr)
                   | Inr None \<Rightarrow> (None, processedJobs @ [jobNo], tr)
                   | Inr (Some destFolderPath) \<Rightarrow>
                       (case formatJobName jobNo (Name j) of
                          Inl e \<Rightarrow> (Some e, processedJobs @ [jobNo], tr)
                        | Inr jobFolderName \<Rightarrow>
                            (case screenAndProvision env tr jobNo destFolderPath jobFolderName of
                               (thrown, tr') \<Rightarrow> (thrown, processedJobs @ [jobNo], tr'))))))
      | Undefined \<Rightarrow> (Some TypeError, processedJobs, tr)
      | Null \<Rightarrow> (Some TypeError, processedJobs, tr)
      | Num n \<Rightarrow> (Some TypeError, processedJobs, tr))"

text \<open>The loop: an exception leaves it at once.\<close>

fun processJobs ::
  "env \<Rightarrow> folder_ids option \<Rightarrow> job list \<Rightarrow> string list \<Rightarrow> call list
     \<Rightarrow> error option \<times> string list \<times> call list" where
  "processJobs env fids [] processedJobs tr = (None, processedJobs, tr)"
| "processJobs env fids (j # js) processedJobs tr =
     (case processJob env fids j processedJobs tr of
        (Some e, processed, tr') \<Rightarrow> (Some e, processed, tr')
      | (None, processed, tr') \<Rightarrow> processJobs env fids js processed tr')"

text \<open>
  The \<^verbatim>\<open>try\<close> block of the scheduled callback from line 314 on: the exception that leaves
  it, if any, and the state then.
\<close>

definition pollBody :: "env \<Rightarrow> state \<Rightarrow> error option \<times> state" where
  "pollBody env st =
     (case getValidAccessToken env st of
        (Inl e, st1) \<Rightarrow> (Some e, st1)
      | (Inr accessToken, st1) \<Rightarrow>
          (let since = lastChecked st1;
               now = clock env (trace st1);
               st2 = st1\<lparr>trace := trace st1 @ [DateNow now]\<rparr>;
               st3 = st2\<lparr>trace := trace st2 @ [WfxGet accessToken since now]\<rparr>
           in case wfx_get env (trace st2) accessToken since now of
                Rejected _ \<Rightarrow> (Some HttpError, st3)
              | Resolved jobs \<Rightarrow>
                  (case processJobs env (folderIds st3) jobs [] (trace st3) of
                     (Some e, processed, tr) \<Rightarrow> (Some e, st3\<lparr>trace := tr\<rparr>)
                   | (None, processed, tr) \<Rightarrow>
                       (let checked = clock env tr
                        in (None, st3\<lparr>lastChecked := checked,
                                        trace := tr @ [DateNow checked]\<rparr>)))))"

text \<open>
  The scheduled callback: the two preconditions, then the body. The handler of line 446
  logs the exception and returns, so the callback always returns the state.
\<close>

definition pollCycle :: "env \<Rightarrow> state \<Rightarrow> state" where
  "pollCycle env st =
     (if (case folderIds st of None \<Rightarrow> True | Some obj \<Rightarrow> obj = []) then st
      else if \<not> truthy (teamMemberId st) then st
      else snd (pollBody env st))"

section \<open>Folder locator\<close>

text \<open>\<^verbatim>\<open>entries.find(entry => entry.name.includes(fragment))\<close>.\<close>

definition findEntry :: "entry list \<Rightarrow> string \<Rightarrow> entry option" where
  "findEntry entries fragment = find (\<lambda>e. str_includes (e_name e) fragment) entries"

text \<open>\<^verbatim>\<open>entry.path_lower || entry.id\<close>.\<close>

definition pathOrId :: "entry \<Rightarrow> string option" where
  "pathOrId e =
     (case e_path_lower e of
        None \<Rightarrow> e_id e
      | Some p \<Rightarrow> (if p = [] then e_id e else Some p))"

text \<open>
  Lines 651 to 679: the mapping is assigned when all three folders are found, and left as
  it was otherwise.
\<close>

definition resolveFolders ::
  "(unit, entry list option) reply \<Rightarrow> folder_ids option \<Rightarrow> folder_ids option" where
  "resolveFolders listing old =
     (case listing of
        Rejected _ \<Rightarrow> old
      | Resolved None \<Rightarrow> old
      | Resolved (Some entries) \<Rightarrow>
          (case findEntry entries ''ISA PROJECT JOBS'' of
             None \<Rightarrow> old
           | Some isaProjectJobs \<Rightarrow>
               (case findEntry entries ''ISA SURVEY PTY LTD'' of
                  None \<Rightarrow> old
                | Some isaSurvey \<Rightarrow>
                    (case findEntry entries ''ISA SURVEYORS PTY LTD'' of
                       None \<Rightarrow> old
                     | Some isaSurveyors \<Rightarrow>
                         Some [(KEY_PROJECT_JOBS, pathOrId isaProjectJobs),
                               (KEY_SURVEY, pathOrId isaSurvey),
                               (KEY_SURVEYORS, pathOrId isaSurveyors)]))))"

text \<open>\<^verbatim>\<open>getTeamMembers\<close>: the members, or none when the call fails or lists nobody.\<close>

definition getTeamMembers :: "env \<Rightarrow> call list \<Rightarrow> member list \<times> call list" where
  "getTeamMembers env tr =
     (let tr' = tr @ [TeamMembersList]
      in case team_members_list env tr of
           Resolved (Some members) \<Rightarrow> (members, tr')
         | _ \<Rightarrow> ([], tr'))"

definition findTeamMemberByEmail :: "member list \<Rightarrow> string \<Rightarrow> jsval" where
  "findTeamMemberByEmail teamMembers email =
     (case find (\<lambda>m. case m_email m of
                        None \<Rightarrow> False
                      | Some e \<Rightarrow> e \<noteq> [] \<and> toLowerCase e = toLowerCase email) teamMembers of
        None \<Rightarrow> Null
      | Some m \<Rightarrow> Str (m_team_member_id m))"

text \<open>
  The callback of \<^verbatim>\<open>app.listen\<close>, for the configured email: it stops when no member is
  found, and resolves the destination folders otherwise.
\<close>

definition startup :: "env \<Rightarrow> string \<Rightarrow> state \<Rightarrow> state" where
  "startup env email st =
     (case getTeamMembers env (trace st) of
        (teamMembers, tr1) \<Rightarrow>
          (if teamMembers = [] then st\<lparr>trace := tr1\<rparr>
           else
             (let st1 = st\<lparr>teamMemberId := findTeamMemberByEmail teamMembers email, trace := tr1\<rparr>
              in if \<not> truthy (teamMemberId st1) then st1
                 else st1\<lparr>folderIds := resolveFolders (list_folder env tr1 []) (folderIds st1),
                          trace := tr1 @ [ListFolder []]\<rparr>)))"

section \<open>Reading the trace\<close>

text \<open>The calls to the storage service that check for, list, copy or create folders.\<close>

fun isStorageCall :: "call \<Rightarrow> bool" where
  "isStorageCall (GetMetadata p) = True"
| "isStorageCall (ListFolder p) = True"
| "isStorageCall (CopyV2 f t) = True"
| "isStorageCall (CreateFolderV2 p) = True"
| "isStorageCall c = False"

text \<open>The calls that provision a folder.\<close>

fun isProvisionCall :: "call \<Rightarrow> bool" where
  "isProvisionCall (CopyV2 f t) = True"
| "isProvisionCall (CreateFolderV2 p) = True"
| "isProvisionCall c = False"

text \<open>The lower bounds of the fetch windows among some calls.\<close>

fun windowStarts :: "call list \<Rightarrow> int list" where
  "windowStarts [] = []"
| "windowStarts (WfxGet token since to # cs) = since # windowStarts cs"
| "windowStarts (c # cs) = windowStarts cs"

text \<open>The calls a step added to the trace \<open>tr\<close> it started from.\<close>

definition newCalls :: "call list \<Rightarrow> call list \<Rightarrow> call list" where
  "newCalls tr tr' = drop (length tr) tr'"

section \<open>Sample environments and states\<close>

text \<open>The environments and states of the concrete instances below.\<close>

definition envA :: env where
  "envA = \<lparr>clock = (\<lambda>tr. 1000 + 10 * int (length tr)),
     token_post = (\<lambda>tr r. Rejected ()),
     write_file = (\<lambda>tr t. True),
     wfx_get = (\<lambda>tr a f t. Resolved []),
     team_members_list = (\<lambda>tr. Rejected ()),
     get_metadata = (\<lambda>tr p. Rejected \<lparr>err_tag = None, err_path_tag = None\<rparr>),
     list_folder = (\<lambda>tr p. Rejected ()),
     copy_v2 = (\<lambda>tr f t. Rejected (Some ''path/not_found/..'')),
     create_folder_v2 = (\<lambda>tr p. Rejected (Some ''path/conflict/file/..'')),
     regexp = (\<lambda>s. None)\<rparr>"

definition envB :: env where
  "envB = envA\<lparr>create_folder_v2 := (\<lambda>tr p. Rejected (Some ''path/conflict/folder/..''))\<rparr>"

definition envC :: env where
  "envC = envA\<lparr>copy_v2 := (\<lambda>tr f t. Rejected (Some ''path/conflict/folder/..''))\<rparr>"

definition cachedTokens :: tokens where
  "cachedTokens = \<lparr>access_token = Str ''cached'', refresh_token = Str ''refresh'',
                    expires_in = Some 3600, obtained_at = Some 0\<rparr>"

definition freshTokens :: tokens where
  "freshTokens = \<lparr>access_token = Str ''fresh'', refresh_token = Str ''refresh2'',
                   expires_in = Some 1800, obtained_at = None\<rparr>"

definition stT :: state where
  "stT = \<lparr>folderIds = None, teamMemberId = Undefined, lastChecked = 0,
          tokenFile = Some cachedTokens, trace = []\<rparr>"

text \<open>The clock reads 3540000, the instant 60 seconds before the cached token expires.\<close>

definition envEdge :: env where
  "envEdge = envA\<lparr>clock := (\<lambda>tr. 3540000), token_post := (\<lambda>tr r. Resolved freshTokens)\<rparr>"

definition envLate :: env where
  "envLate = envA\<lparr>clock := (\<lambda>tr. 3540001 + int (length tr)),
                   token_post := (\<lambda>tr r. Resolved freshTokens)\<rparr>"

text \<open>A state in which both preconditions of the cycle hold and the cached token is valid.\<close>

definition readyFolders :: folder_ids where
  "readyFolders = [(KEY_PROJECT_JOBS, Some ''/isa project jobs (2-5)''),
                   (KEY_SURVEY, Some ''/isa survey pty ltd (7-8)''),
                   (KEY_SURVEYORS, Some ''/isa surveyors pty ltd (6 or 9)'')]"

definition stReady :: state where
  "stReady = \<lparr>folderIds = Some readyFolders, teamMemberId = Str ''dbmid:1'', lastChecked = 0,
              tokenFile = Some cachedTokens, trace = []\<rparr>"

text \<open>The tracking system is unreachable.\<close>

definition envDown :: env where
  "envDown = envA\<lparr>wfx_get := (\<lambda>tr a f t. Rejected ())\<rparr>"

text \<open>The tracking system returns one job, and the template copy succeeds.\<close>

definition envBatch :: env where
  "envBatch = envA\<lparr>
     wfx_get := (\<lambda>tr a f t. Resolved [\<lparr>ID = Str ''2001'', Name = Str ''Alpha'', DateCreated = Some 5\<rparr>]),
     copy_v2 := (\<lambda>tr f t. Resolved (Some \<lparr>md_name = ''2001 - ALPHA'', md_path_display = t\<rparr>))\<rparr>"

text \<open>
  The namespace root lists two of the three destination folders; a member with the
  configured email exists.
\<close>

definition twoFolders :: "entry list" where
  "twoFolders =
     [\<lparr>e_tag = ''folder'', e_name = ''ISA PROJECT JOBS (2-5)'',
       e_path_lower = Some ''/isa project jobs (2-5)'', e_id = Some ''id:1''\<rparr>,
      \<lparr>e_tag = ''folder'', e_name = ''ISA SURVEY PTY LTD (7-8)'',
       e_path_lower = Some ''/isa survey pty ltd (7-8)'', e_id = Some ''id:2''\<rparr>]"

definition envPartial :: env where
  "envPartial = envBatch\<lparr>
     team_members_list := (\<lambda>tr. Resolved (Some [\<lparr>m_email = Some ''Ops@Example.com'',
                                                    m_team_member_id = ''dbmid:1''\<rparr>])),
     list_folder := (\<lambda>tr p. Resolved (Some twoFolders))\<rparr>"

definition stInitial :: state where
  "stInitial = \<lparr>folderIds = None, teamMemberId = Undefined, lastChecked = 0,
                tokenFile = Some cachedTokens, trace = []\<rparr>"

definition threeFolders :: "entry list" where
  "threeFolders = twoFolders @
     [\<lparr>e_tag = ''folder'', e_name = ''ISA SURVEYORS PTY LTD (6 or 9)'',
       e_path_lower = None, e_id = Some ''id:3''\<rparr>]"

text \<open>A batch whose first job has no Name and an identifier that is not routed.\<close>

definition envUnrouted :: env where
  "envUnrouted = envBatch\<lparr>
     wfx_get := (\<lambda>tr a f t. Resolved
       [\<lparr>ID = Str ''1000'', Name = Undefined, DateCreated = Some 5\<rparr>,
        \<lparr>ID = Str ''2001'', Name = Str ''Alpha'', DateCreated = Some 5\<rparr>])\<rparr>"

text \<open>A batch whose second job is routed and has no Name.\<close>

definition envNameless :: env where
  "envNameless = envBatch\<lparr>
     wfx_get := (\<lambda>tr a f t. Resolved
       [\<lparr>ID = Str ''2001'', Name = Str ''Alpha'', DateCreated = Some 5\<rparr>,
        \<lparr>ID = Str ''2002'', Name = Undefined, DateCreated = Some 5\<rparr>,
        \<lparr>ID = Str ''2003'', Name = Str ''Gamma'', DateCreated = Some 5\<rparr>])\<rparr>"

text \<open>The folder of the base job 9000549 exists and the listing shows it.\<close>

definition alphaFolder :: entry where
  "alphaFolder = \<lparr>e_tag = ''folder'', e_name = ''9000549 - ALPHA'',
                   e_path_lower = Some ''/isa surveyors pty ltd (6 or 9)/9000549 - alpha'',
                   e_id = Some ''id:9''\<rparr>"

definition envSibling :: env where
  "envSibling = envBatch\<lparr>list_folder := (\<lambda>tr p. Resolved (Some [alphaFolder]))\<rparr>"

text \<open>The same folder exists, its metadata lookup succeeds, and the listing call fails.\<close>

definition envListDown :: env where
  "envListDown = envBatch\<lparr>
     get_metadata := (\<lambda>tr p. if p = ''/isa surveyors pty ltd (6 or 9)/9000549 - ALPHA''
                              then Resolved ()
                              else Rejected \<lparr>err_tag = Some ''path'', err_path_tag = Some ''not_found''\<rparr>),
     list_folder := (\<lambda>tr p. Rejected ())\<rparr>"

text \<open>No credential file: the refresh is attempted and the token endpoint rejects it.\<close>

definition stNoToken :: state where
  "stNoToken = stReady\<lparr>tokenFile := None\<rparr>"

text \<open>The credential file has an access token and no \<^verbatim>\<open>expires_in\<close>.\<close>

definition stUntimed :: state where
  "stUntimed = stT\<lparr>tokenFile := Some (cachedTokens\<lparr>expires_in := None\<rparr>)\<rparr>"

text \<open>The token endpoint answers, and the credential file cannot be written.\<close>

definition envWriteFails :: env where
  "envWriteFails = envLate\<lparr>write_file := (\<lambda>tr t. False)\<rparr>"

section \<open>Properties of the name formatter\<close>

lemma replaceAll_literal:
  "p \<noteq> [] \<Longrightarrow> replaceAll (matchLiteral p) r s = subst p r s"
proof (induction s rule: length_induct)
  case (1 s)
  show ?case
  proof (cases s)
    case Nil
    with 1(2) show ?thesis by (cases p) (simp_all add: matchLiteral_def)
  next
    case (Cons c cs)
    have a: "replaceAll (matchLiteral p) r cs = subst p r cs"
      using 1 Cons by simp
    have b: "replaceAll (matchLiteral p) r (drop (length p - 1) cs)
               = subst p r (drop (length p - 1) cs)"
      using 1 Cons by simp
    have m: "matchLiteral p (c # cs) = (if startsWith (c # cs) p then Some (length p) else None)"
      by (simp add: matchLiteral_def)
    from a b m 1(2) Cons show ?thesis by simp
  qed
qed

lemma replaceAll_underscore:
  "replaceAll (matchLiteral ''_'') '' - '' s = underscoresToDashes s"
  by (induction s) (simp_all add: matchLiteral_def underscoresToDashes_def)

lemma collapseSpaces_space:
  "isSpace c \<Longrightarrow> collapseSpaces (c # cs) = CHR '' '' # collapseSpaces (dropWhile isSpace cs)"
  by (induction cs arbitrary: c) simp_all

lemma collapseSpaces_nonspace:
  "\<not> isSpace c \<Longrightarrow> collapseSpaces (c # cs) = c # collapseSpaces cs"
  by (cases cs) simp_all

lemma drop_takeWhile_length: "drop (length (takeWhile P xs)) xs = dropWhile P xs"
  by (induction xs) simp_all

lemma replaceAll_spaces:
  "replaceAll matchSpaces '' '' s = collapseSpaces s"
proof (induction s rule: length_induct)
  case (1 s)
  show ?case
  proof (cases s)
    case Nil
    then show ?thesis by (simp add: matchSpaces_def)
  next
    case (Cons c cs)
    show ?thesis
    proof (cases "isSpace c")
      case True
      have "length (dropWhile isSpace cs) < length s"
        using Cons length_dropWhile_le[of isSpace cs] by simp
      then have "replaceAll matchSpaces '' '' (dropWhile isSpace cs)
                   = collapseSpaces (dropWhile isSpace cs)"
        using 1 by blast
      moreover have "matchSpaces (c # cs) = Some (Suc (length (takeWhile isSpace cs)))"
        using True by (simp add: matchSpaces_def)
      ultimately show ?thesis using True Cons
        by (simp add: collapseSpaces_space drop_takeWhile_length)
    next
      case False
      have "replaceAll matchSpaces '' '' cs = collapseSpaces cs"
        using 1 Cons by simp
      moreover have "matchSpaces (c # cs) = None"
        using False by (simp add: matchSpaces_def)
      ultimately show ?thesis using False Cons
        by (simp add: collapseSpaces_nonspace)
    qed
  qed
qed

lemma isSpace_paren [simp]: "\<not> isSpace (CHR ''('')"
  by (simp add: isSpace_def)

lemma spaces_then_open:
  "dropWhile isSpace s = CHR ''('' # r \<Longrightarrow>
     dropWhile (\<lambda>c. c \<noteq> CHR ''('') s = CHR ''('' # r
     \<and> takeWhile (\<lambda>c. c \<noteq> CHR ''('') s = takeWhile isSpace s"
proof (induction s)
  case Nil
  then show ?case by simp
next
  case (Cons c cs)
  show ?case
  proof (cases "isSpace c")
    case True
    then have "c \<noteq> CHR ''(''" by auto
    with True Cons show ?thesis by simp
  next
    case False
    with Cons show ?thesis by simp
  qed
qed

lemma matchParenthesized_Some:
  assumes "matchParenthesized s = Some n"
  shows "\<exists>r. dropWhile isSpace s = CHR ''('' # r \<and> CHR '')'' \<in> set r
       \<and> n = length (takeWhile isSpace s) + 1 + length (takeWhile (\<lambda>x. x \<noteq> CHR '')'') r) + 1"
proof (cases "dropWhile isSpace s")
  case Nil
  show ?thesis using assms unfolding matchParenthesized_def Nil by simp
next
  case (Cons c r)
  show ?thesis using assms unfolding matchParenthesized_def Cons by (simp split: if_splits)
qed

lemma matchParenthesized_None_iff:
  "matchParenthesized s = None \<longleftrightarrow>
     \<not> (\<exists>r. dropWhile isSpace s = CHR ''('' # r \<and> CHR '')'' \<in> set r)"
proof (cases "dropWhile isSpace s")
  case Nil
  show ?thesis unfolding matchParenthesized_def Nil by simp
next
  case (Cons c r)
  show ?thesis unfolding matchParenthesized_def Cons by auto
qed

lemma no_group_no_match:
  assumes "\<not> hasGroup s"
  shows "matchParenthesized s = None"
proof (rule ccontr)
  assume "matchParenthesized s \<noteq> None"
  then obtain r where r: "dropWhile isSpace s = CHR ''('' # r" "CHR '')'' \<in> set r"
    unfolding matchParenthesized_None_iff by blast
  from spaces_then_open[OF r(1)] have "dropWhile (\<lambda>c. c \<noteq> CHR ''('') s = CHR ''('' # r" by simp
  then have "hasGroup s" unfolding hasGroup_def using r(2) by simp
  with assms show False by simp
qed

lemma dropWhile_spaces_open:
  assumes "\<forall>x\<in>set a. isSpace x"
  shows "dropWhile isSpace (a @ CHR ''('' # r) = CHR ''('' # r"
proof -
  have "dropWhile isSpace (a @ CHR ''('' # r) = dropWhile isSpace (CHR ''('' # r)"
    using assms by (intro dropWhile_append2) simp
  then show ?thesis by simp
qed

lemma no_group_tl:
  assumes "\<not> hasGroup (c # cs)"
  shows "\<not> hasGroup cs"
proof (cases "c = CHR ''(''")
  case True
  with assms have no: "CHR '')'' \<notin> set cs" by (simp add: hasGroup_def)
  show ?thesis
  proof (cases "dropWhile (\<lambda>c. c \<noteq> CHR ''('') cs")
    case Nil
    show ?thesis unfolding hasGroup_def Nil by simp
  next
    case (Cons d r)
    have "set (d # r) \<subseteq> set cs"
      using set_dropWhileD[of _ "\<lambda>c. c \<noteq> CHR ''(''" cs] unfolding Cons by blast
    with no have "CHR '')'' \<notin> set r" by auto
    then show ?thesis unfolding hasGroup_def Cons by simp
  qed
next
  case False
  with assms show ?thesis by (simp add: hasGroup_def)
qed

lemma replaceAll_no_group: "\<not> hasGroup s \<Longrightarrow> replaceAll matchParenthesized [] s = s"
proof (induction s)
  case Nil
  then show ?case by (simp add: matchParenthesized_def)
next
  case (Cons c cs)
  have "matchParenthesized (c # cs) = None" using Cons.prems by (rule no_group_no_match)
  moreover have "replaceAll matchParenthesized [] cs = cs"
    using Cons no_group_tl by blast
  ultimately show ?case by simp
qed

lemma trimEnd_Cons:
  "trimEnd (c # a) = (if isSpace c \<and> (\<forall>x\<in>set a. isSpace x) then [] else c # trimEnd a)"
  by (simp add: trimEnd_def dropWhile_append)

lemma trimEnd_spaces: "\<forall>x\<in>set a. isSpace x \<Longrightarrow> trimEnd a = []"
  by (simp add: trimEnd_def)

lemma drop_match:
  "CHR '')'' \<in> set r \<Longrightarrow>
   drop (length ws + 1 + length (takeWhile (\<lambda>x. x \<noteq> CHR '')'') r) + 1) (ws @ CHR ''('' # r)
     = tl (dropWhile (\<lambda>x. x \<noteq> CHR '')'') r)"
proof -
  assume "CHR '')'' \<in> set r"
  have "drop (length ws + 1 + length (takeWhile (\<lambda>x. x \<noteq> CHR '')'') r) + 1) (ws @ CHR ''('' # r)
        = drop (length (takeWhile (\<lambda>x. x \<noteq> CHR '')'') r) + 1) r"
    by simp
  also have "\<dots> = drop 1 (drop (length (takeWhile (\<lambda>x. x \<noteq> CHR '')'') r)) r)"
    by (simp add: add.commute)
  also have "\<dots> = tl (dropWhile (\<lambda>x. x \<noteq> CHR '')'') r)"
    by (simp add: drop_takeWhile_length drop_Suc)
  finally show ?thesis .
qed

lemma replaceAll_group:
  "dropWhile (\<lambda>c. c \<noteq> CHR ''('') s = CHR ''('' # r \<Longrightarrow> CHR '')'' \<in> set r \<Longrightarrow>
   replaceAll matchParenthesized [] s
     = trimEnd (takeWhile (\<lambda>c. c \<noteq> CHR ''('') s)
       @ replaceAll matchParenthesized [] (tl (dropWhile (\<lambda>c. c \<noteq> CHR '')'') r))"
proof (induction s)
  case Nil
  then show ?case by simp
next
  case (Cons c cs)
  show ?case
  proof (cases "matchParenthesized (c # cs)")
    case (Some n)
    then obtain r0 where r0: "dropWhile isSpace (c # cs) = CHR ''('' # r0" "CHR '')'' \<in> set r0"
      and n: "n = length (takeWhile isSpace (c # cs)) + 1 + length (takeWhile (\<lambda>x. x \<noteq> CHR '')'') r0) + 1"
      using matchParenthesized_Some by blast
    from spaces_then_open[OF r0(1)] Cons.prems(1)
    have eq: "r0 = r" and tw: "takeWhile (\<lambda>c. c \<noteq> CHR ''('') (c # cs) = takeWhile isSpace (c # cs)"
      by simp_all
    define ws where "ws = takeWhile isSpace (c # cs)"
    have split: "c # cs = ws @ CHR ''('' # r"
      unfolding ws_def using r0(1) eq takeWhile_dropWhile_id[of isSpace "c # cs"] by metis
    have n': "n = length ws + 1 + length (takeWhile (\<lambda>x. x \<noteq> CHR '')'') r) + 1"
      using n eq ws_def by simp
    have "drop n (c # cs) = tl (dropWhile (\<lambda>x. x \<noteq> CHR '')'') r)"
      unfolding n' split by (rule drop_match[OF Cons.prems(2)])
    moreover have "n \<noteq> 0" using n by simp
    ultimately have d: "drop (n - 1) cs = tl (dropWhile (\<lambda>x. x \<noteq> CHR '')'') r)"
      by (cases n) simp_all
    have "trimEnd (takeWhile (\<lambda>c. c \<noteq> CHR ''('') (c # cs)) = []"
      unfolding tw by (rule trimEnd_spaces) (auto dest: set_takeWhileD)
    with Some d \<open>n \<noteq> 0\<close> show ?thesis by simp
  next
    case None
    have c: "c \<noteq> CHR ''(''"
    proof
      assume "c = CHR ''(''"
      with Cons.prems have "dropWhile isSpace (c # cs) = CHR ''('' # r" by simp
      with Cons.prems(2) None show False
        unfolding matchParenthesized_None_iff by blast
    qed
    with Cons.prems have prem: "dropWhile (\<lambda>c. c \<noteq> CHR ''('') cs = CHR ''('' # r" by simp
    have ih: "replaceAll matchParenthesized [] cs
        = trimEnd (takeWhile (\<lambda>c. c \<noteq> CHR ''('') cs)
          @ replaceAll matchParenthesized [] (tl (dropWhile (\<lambda>c. c \<noteq> CHR '')'') r))"
      using Cons.IH[OF prem Cons.prems(2)] .
    have notall: "\<not> (isSpace c \<and> (\<forall>x\<in>set (takeWhile (\<lambda>c. c \<noteq> CHR ''('') cs). isSpace x))"
    proof
      assume a: "isSpace c \<and> (\<forall>x\<in>set (takeWhile (\<lambda>c. c \<noteq> CHR ''('') cs). isSpace x)"
      have "cs = takeWhile (\<lambda>c. c \<noteq> CHR ''('') cs @ CHR ''('' # r"
        using prem takeWhile_dropWhile_id[of "\<lambda>c. c \<noteq> CHR ''(''" cs] by simp
      then have "dropWhile isSpace cs = CHR ''('' # r"
        using a dropWhile_spaces_open[of "takeWhile (\<lambda>c. c \<noteq> CHR ''('') cs" r] by simp
      with a have "dropWhile isSpace (c # cs) = CHR ''('' # r" by simp
      with Cons.prems(2) None show False
        unfolding matchParenthesized_None_iff by blast
    qed
    from None ih c notall show ?thesis by (simp add: trimEnd_Cons)
  qed
qed

lemma replaceAll_parenthesized:
  "replaceAll matchParenthesized [] s = stripGroupsBy trimEnd s"
proof (induction s rule: length_induct)
  case (1 s)
  show ?case
  proof (cases "dropWhile (\<lambda>c. c \<noteq> CHR ''('') s")
    case Nil
    have "\<not> hasGroup s" unfolding hasGroup_def Nil by simp
    then have "replaceAll matchParenthesized [] s = s" by (rule replaceAll_no_group)
    moreover have "stripGroupsBy trimEnd s = s" by (subst stripGroupsBy.simps) (simp only: Nil list.case)
    ultimately show ?thesis by simp
  next
    case (Cons c r)
    have c: "c = CHR ''(''"
      using Cons hd_dropWhile[of "\<lambda>c. c \<noteq> CHR ''(''" s] by auto
    show ?thesis
    proof (cases "CHR '')'' \<in> set r")
      case True
      have "length (c # r) \<le> length s"
        using Cons length_dropWhile_le[of "\<lambda>c. c \<noteq> CHR ''(''" s] by simp
      moreover have "length (tl (dropWhile (\<lambda>c. c \<noteq> CHR '')'') r)) \<le> length r"
        using length_dropWhile_le[of "\<lambda>c. c \<noteq> CHR '')''" r] by simp
      ultimately have "length (tl (dropWhile (\<lambda>c. c \<noteq> CHR '')'') r)) < length s" by simp
      then have ih: "replaceAll matchParenthesized [] (tl (dropWhile (\<lambda>c. c \<noteq> CHR '')'') r))
                   = stripGroupsBy trimEnd (tl (dropWhile (\<lambda>c. c \<noteq> CHR '')'') r))"
        using 1 by blast
      have "stripGroupsBy trimEnd s = trimEnd (takeWhile (\<lambda>c. c \<noteq> CHR ''('') s)
                  @ stripGroupsBy trimEnd (tl (dropWhile (\<lambda>c. c \<noteq> CHR '')'') r))"
        by (subst stripGroupsBy.simps) (simp only: Cons list.case True if_True)
      with ih replaceAll_group[OF Cons[unfolded c] True] show ?thesis by simp
    next
      case False
      have "\<not> hasGroup s" unfolding hasGroup_def Cons using False by simp
      then have "replaceAll matchParenthesized [] s = s" by (rule replaceAll_no_group)
      moreover have "stripGroupsBy trimEnd s = s"
        by (subst stripGroupsBy.simps) (simp only: Cons list.case False if_False)
      ultimately show ?thesis by simp
    qed
  qed
qed


lemma formatTitle_normalizedTitle: "formatTitle title = normalizedTitle title"
  by (simp add: formatTitle_def normalizedTitle_def decodeEntities_def
        stripParenthesizedAndSpace_def replaceAll_literal replaceAll_underscore
        replaceAll_spaces replaceAll_parenthesized)

lemma normalizedTitle_empty:
  "stripParenthesizedAndSpace (decodeEntities title) = [] \<Longrightarrow> normalizedTitle title = []"
  by (simp add: normalizedTitle_def underscoresToDashes_def toUpperCase_def trim_def trimEnd_def)

lemmas eval_format =
  formatJobName_def formatTitle_def matchLiteral_def matchParenthesized_def matchSpaces_def
  toUpperCase_def toUpperChar_def trim_def trimEnd_def isSpace_def

lemmas eval_spec =
  formatName_spec_def normalizedTitle_def decodeEntities_def stripParenthesized_def
  stripParenthesizedAndSpace_def stripGroupsBy.simps underscoresToDashes_def
  toUpperCase_def toUpperChar_def trim_def trimEnd_def isSpace_def

text \<open>
  C3, as stated: \<open>formatName\<close> is the composition of the six steps, step 2 stripping the
  parenthesized substrings with their parentheses. The source's pattern is
  \<^verbatim>\<open>/\s*\([^)]*\)/g\<close>: it also removes the white space in front of each parenthesized
  substring, so a title whose parenthesized substring is followed by text loses the
  separating space.
\<close>

theorem C3_paren_space_counterexample:
  "formatJobName ''1'' (Str ''A (x)B'') = Inr ''1 - AB''
   \<and> formatName_spec ''1'' ''A (x)B'' = ''1 - A B''"
proof -
  have "formatJobName ''1'' (Str ''A (x)B'') = Inr ''1 - AB''"
    by (simp add: eval_format)
  moreover have "formatName_spec ''1'' ''A (x)B'' = ''1 - A B''"
    by (simp add: eval_spec)
  ultimately show ?thesis by simp
qed

text \<open>
  C3, amended: \<open>formatName(identifier, title)\<close> applies, in order: decode the five HTML
  entities; strip every parenthesized substring with its parentheses and with the white
  space directly before it; replace every underscore with " - "; uppercase; collapse white
  space runs to single spaces and trim; prefix the raw identifier and " - ". It is a
  function of identifier and title; a title that is empty after stripping yields exactly
  "{identifier} - "; and the example of the specification holds.
\<close>

theorem C3_formatName_steps:
  "formatJobName identifier (Str title) = Inr (identifier @ '' - '' @ normalizedTitle title)
   \<and> (stripParenthesizedAndSpace (decodeEntities title) = [] \<longrightarrow>
        formatJobName identifier (Str title) = Inr (identifier @ '' - ''))
   \<and> formatJobName ''9000549_1'' (Str ''Smith &amp; Sons (Lot 4) Survey_Job'')
        = Inr ''9000549_1 - SMITH & SONS SURVEY - JOB''"
proof -
  have steps: "formatJobName identifier (Str title)
                 = Inr (identifier @ '' - '' @ normalizedTitle title)"
    by (simp add: formatJobName_def formatTitle_normalizedTitle)
  have example: "formatJobName ''9000549_1'' (Str ''Smith &amp; Sons (Lot 4) Survey_Job'')
                   = Inr ''9000549_1 - SMITH & SONS SURVEY - JOB''"
    by (simp add: eval_format)
  from steps example show ?thesis
    by (simp add: normalizedTitle_empty)
qed

theorem C3_formatName_steps_witness:
  "stripParenthesizedAndSpace (decodeEntities '' (Lot 4)'') = []
   \<and> formatJobName ''7001'' (Str '' (Lot 4)'') = Inr ''7001 - ''
   \<and> formatJobName ''7001'' (Str ''a_b (c) &lt;d&gt;'') = Inr ''7001 - A - B <D>''"
proof -
  have empty: "stripParenthesizedAndSpace (decodeEntities '' (Lot 4)'') = []"
    by (simp add: eval_spec)
  from empty C3_formatName_steps[of "''7001''" "'' (Lot 4)''"]
  have "formatJobName ''7001'' (Str '' (Lot 4)'') = Inr (''7001'' @ '' - '')"
    by blast
  then have a: "formatJobName ''7001'' (Str '' (Lot 4)'') = Inr ''7001 - ''"
    by simp
  have "normalizedTitle ''a_b (c) &lt;d&gt;'' = ''A - B <D>''"
    by (simp add: eval_spec)
  with C3_formatName_steps[of "''7001''" "''a_b (c) &lt;d&gt;''"]
  have b: "formatJobName ''7001'' (Str ''a_b (c) &lt;d&gt;'') = Inr ''7001 - A - B <D>''"
    by simp
  from empty a b show ?thesis by simp
qed

section \<open>Properties of the router\<close>

lemma folderPathFor_Some: "folderPathFor (Some obj) key = Inr (resolvedPath obj key)"
  by (simp add: folderPathFor_def resolvedPath_def split: option.splits)

text \<open>
  C6, as stated: the router returns a path or absent, never an error, for every identifier,
  and absent when the matched category was never resolved. The claim fails when startup
  resolved nothing: the mapping object does not exist, and routing an identifier with a
  lead in 2..9 reads a property of \<^verbatim>\<open>undefined\<close>.
\<close>

theorem C6_unset_mapping_counterexample:
  "selectDestinationFolder None (Str ''2001'') = Inl TypeError"
  by (simp add: folderPathFor_def)

text \<open>
  C6, amended: whenever the destination mapping object exists, \<open>selectDestinationFolder\<close>
  returns without error for every identifier value; a first character in 2,3,4,5 gives
  category A's path, 7,8 category B's, 6,9 category C's; every other lead, the empty
  string and every non-string give absent; and a category with no entry (or an empty one)
  in the object gives absent.
\<close>

theorem C6_router_total_on_mapping:
  "(\<exists>r. selectDestinationFolder (Some obj) jobNo = Inr r)
   \<and> (p \<in> set ''2345'' \<longrightarrow>
        selectDestinationFolder (Some obj) (Str (p # rest)) = Inr (resolvedPath obj KEY_PROJECT_JOBS))
   \<and> (p \<in> set ''78'' \<longrightarrow>
        selectDestinationFolder (Some obj) (Str (p # rest)) = Inr (resolvedPath obj KEY_SURVEY))
   \<and> (p \<in> set ''69'' \<longrightarrow>
        selectDestinationFolder (Some obj) (Str (p # rest)) = Inr (resolvedPath obj KEY_SURVEYORS))
   \<and> (p \<notin> set ''23456789'' \<longrightarrow>
        selectDestinationFolder (Some obj) (Str (p # rest)) = Inr None)
   \<and> selectDestinationFolder (Some obj) (Str []) = Inr None
   \<and> (\<not> isString jobNo \<longrightarrow> selectDestinationFolder (Some obj) jobNo = Inr None)
   \<and> (map_of obj key = None \<longrightarrow> resolvedPath obj key = None)"
proof -
  have total: "\<exists>r. selectDestinationFolder (Some obj) jobNo = Inr r"
    by (cases "(Some obj, jobNo)" rule: selectDestinationFolder.cases)
       (auto simp: folderPathFor_Some)
  have other: "\<not> isString jobNo \<longrightarrow> selectDestinationFolder (Some obj) jobNo = Inr None"
    by (cases jobNo) simp_all
  have unresolved: "map_of obj key = None \<longrightarrow> resolvedPath obj key = None"
    by (simp add: resolvedPath_def)
  from total other unresolved show ?thesis
    by (auto simp: folderPathFor_Some)
qed

theorem C6_router_total_on_mapping_witness:
  "selectDestinationFolder (Some [(KEY_PROJECT_JOBS, Some ''/isa project jobs (2-5)'')]) (Str ''2001'')
     = Inr (Some ''/isa project jobs (2-5)'')
   \<and> selectDestinationFolder (Some [(KEY_PROJECT_JOBS, Some ''/isa project jobs (2-5)'')]) (Str ''7001'')
     = Inr None
   \<and> selectDestinationFolder (Some [(KEY_PROJECT_JOBS, Some ''/isa project jobs (2-5)'')]) (Str ''6001'')
     = Inr None
   \<and> selectDestinationFolder (Some [(KEY_PROJECT_JOBS, Some ''/isa project jobs (2-5)'')]) (Str ''1001'')
     = Inr None
   \<and> selectDestinationFolder (Some [(KEY_PROJECT_JOBS, Some ''/isa project jobs (2-5)'')]) Undefined
     = Inr None"
  using C6_router_total_on_mapping
          [of "[(KEY_PROJECT_JOBS, Some ''/isa project jobs (2-5)'')]" "Str ''2001''"
              "CHR ''2''" "''001''" KEY_SURVEY]
        C6_router_total_on_mapping
          [of "[(KEY_PROJECT_JOBS, Some ''/isa project jobs (2-5)'')]" "Str ''7001''"
              "CHR ''7''" "''001''" KEY_SURVEY]
        C6_router_total_on_mapping
          [of "[(KEY_PROJECT_JOBS, Some ''/isa project jobs (2-5)'')]" "Str ''6001''"
              "CHR ''6''" "''001''" KEY_SURVEYORS]
        C6_router_total_on_mapping
          [of "[(KEY_PROJECT_JOBS, Some ''/isa project jobs (2-5)'')]" "Undefined"
              "CHR ''1''" "''001''" KEY_SURVEY]
  by (simp add: resolvedPath_def KEY_PROJECT_JOBS_def KEY_SURVEY_def KEY_SURVEYORS_def)

section \<open>Properties of the checker and the provisioner\<close>

lemma checkFolderExists_eq:
  "checkFolderExists env tr parentPath exactName
     = (case get_metadata env tr (parentPath @ ''/'' @ exactName) of
          Rejected e \<Rightarrow> False | Resolved found \<Rightarrow> True,
        tr @ [GetMetadata (parentPath @ ''/'' @ exactName)])"
  by (simp add: checkFolderExists_def Let_def split: reply.splits)

lemma createFolder_eq:
  "createFolder env tr parentPath folderName
     = (case create_folder_v2 env tr (parentPath @ ''/'' @ folderName) of
          Resolved (Some md) \<Rightarrow> Some md
        | Resolved None \<Rightarrow> None
        | Rejected summary \<Rightarrow>
            (if summaryIncludes summary ''path/conflict/folder''
             then Some \<lparr>md_name = folderName, md_path_display = parentPath @ ''/'' @ folderName\<rparr>
             else None),
        tr @ [CreateFolderV2 (parentPath @ ''/'' @ folderName)])"
  by (simp add: createFolder_def Let_def split: reply.splits option.splits)

lemma createFolder_trace:
  "snd (createFolder env tr parentPath folderName)
     = tr @ [CreateFolderV2 (parentPath @ ''/'' @ folderName)]"
  by (simp add: createFolder_eq)

lemma createFolderFromTemplate_conflict:
  "copy_v2 env tr TEMPLATE_PATH (parentPath @ ''/'' @ folderName) = Rejected summary \<Longrightarrow>
   summaryIncludes summary ''path/conflict'' \<Longrightarrow>
   createFolderFromTemplate env tr parentPath folderName
     = (Some \<lparr>md_name = folderName, md_path_display = parentPath @ ''/'' @ folderName\<rparr>,
        tr @ [CopyV2 TEMPLATE_PATH (parentPath @ ''/'' @ folderName)])"
  by (simp add: createFolderFromTemplate_def Let_def)

lemma createFolderFromTemplate_fallback:
  "copy_v2 env tr TEMPLATE_PATH (parentPath @ ''/'' @ folderName) = Rejected summary \<Longrightarrow>
   \<not> summaryIncludes summary ''path/conflict'' \<Longrightarrow>
   createFolderFromTemplate env tr parentPath folderName
     = createFolder env (tr @ [CopyV2 TEMPLATE_PATH (parentPath @ ''/'' @ folderName)])
         parentPath folderName"
  by (simp add: createFolderFromTemplate_def Let_def)

lemma createFolderFromTemplate_calls:
  "\<exists>cs. snd (createFolderFromTemplate env tr parentPath folderName)
          = tr @ CopyV2 TEMPLATE_PATH (parentPath @ ''/'' @ folderName) # cs
        \<and> list_all isProvisionCall cs"
  by (simp add: createFolderFromTemplate_def createFolder_eq Let_def
           split: reply.splits option.splits)

text \<open>
  C7: \<open>exists(parentPath, exactName)\<close> makes one metadata lookup for
  \<open>parentPath/exactName\<close> and returns true exactly when the lookup succeeds; "not found"
  and every other error give false. It has no exceptional result, and after a failed
  lookup the item is not skipped: it goes on to the sibling check and the provisioning.
\<close>

theorem C7_exists_fails_open:
  "checkFolderExists env tr parentPath exactName
     = (case get_metadata env tr (parentPath @ ''/'' @ exactName) of
          Rejected e \<Rightarrow> False | Resolved found \<Rightarrow> True,
        tr @ [GetMetadata (parentPath @ ''/'' @ exactName)])
   \<and> (get_metadata env tr (parentPath @ ''/'' @ exactName) = Rejected e \<longrightarrow>
        fst (checkFolderExists env tr parentPath exactName) = False
        \<and> screenAndProvision env tr jobNo parentPath exactName
            = provisionUnlessSibling env (tr @ [GetMetadata (parentPath @ ''/'' @ exactName)])
                jobNo parentPath exactName)"
  by (simp add: checkFolderExists_eq screenAndProvision_def)

theorem C7_exists_fails_open_witness:
  "get_metadata envA [] (''/p'' @ ''/'' @ ''2001 - A'') = Rejected \<lparr>err_tag = None, err_path_tag = None\<rparr>
   \<and> checkFolderExists envA [] ''/p'' ''2001 - A'' = (False, [GetMetadata ''/p/2001 - A''])
   \<and> snd (screenAndProvision envA [] ''2001'' ''/p'' ''2001 - A'')
       = [GetMetadata ''/p/2001 - A'', CopyV2 TEMPLATE_PATH ''/p/2001 - A'',
          CreateFolderV2 ''/p/2001 - A'']"
proof -
  have r: "get_metadata envA [] (''/p'' @ ''/'' @ ''2001 - A'')
             = Rejected \<lparr>err_tag = None, err_path_tag = None\<rparr>"
    by (simp add: envA_def)
  have p: "snd (provisionUnlessSibling envA ([] @ [GetMetadata (''/p'' @ ''/'' @ ''2001 - A'')])
                  ''2001'' ''/p'' ''2001 - A'')
             = [GetMetadata ''/p/2001 - A'', CopyV2 TEMPLATE_PATH ''/p/2001 - A'',
                CreateFolderV2 ''/p/2001 - A'']"
    by (simp add: provisionUnlessSibling_def createFolderFromTemplate_def createFolder_def
          summaryIncludes_def envA_def Let_def)
  from r p C7_exists_fails_open[of envA "[]" "''/p''" "''2001 - A''"
         "\<lparr>err_tag = None, err_path_tag = None\<rparr>" "''2001''"]
  show ?thesis by simp
qed

text \<open>
  C4, as stated: a create that returns a conflict yields Materialized. The source accepts
  a rejected create only when its error summary contains \<^verbatim>\<open>path/conflict/folder\<close>; a
  conflict with a file at the target path is a failure.
\<close>

theorem C4_create_conflict_counterexample:
  "copy_v2 envA [] TEMPLATE_PATH ''/p/2001 - A'' = Rejected (Some ''path/not_found/..'')
   \<and> create_folder_v2 envA [CopyV2 TEMPLATE_PATH ''/p/2001 - A''] ''/p/2001 - A''
       = Rejected (Some ''path/conflict/file/..'')
   \<and> summaryIncludes (Some ''path/conflict/file/..'') ''path/conflict''
   \<and> createFolderFromTemplate envA [] ''/p'' ''2001 - A''
       = (None, [CopyV2 TEMPLATE_PATH ''/p/2001 - A'', CreateFolderV2 ''/p/2001 - A''])"
  by (simp add: createFolderFromTemplate_def createFolder_def summaryIncludes_def envA_def Let_def)

text \<open>
  C4, amended: a template copy rejected with a conflict (an error summary containing
  \<^verbatim>\<open>path/conflict\<close>) returns Materialized and makes no create call. A copy rejected with
  any other error, template-not-found included, is followed by exactly one empty-folder
  create at \<open>parentPath/canonicalName\<close>; that create yields Materialized when it resolves
  with metadata or is rejected with a folder conflict (a summary containing
  \<^verbatim>\<open>path/conflict/folder\<close>), and Failed in every other case, with no further call.
\<close>

theorem C4_fallback_chain:
  "(copy_v2 env tr TEMPLATE_PATH (parentPath @ ''/'' @ canonicalName) = Rejected summary
      \<and> summaryIncludes summary ''path/conflict'' \<longrightarrow>
      createFolderFromTemplate env tr parentPath canonicalName
        = (Some \<lparr>md_name = canonicalName, md_path_display = parentPath @ ''/'' @ canonicalName\<rparr>,
           tr @ [CopyV2 TEMPLATE_PATH (parentPath @ ''/'' @ canonicalName)]))
   \<and> (copy_v2 env tr TEMPLATE_PATH (parentPath @ ''/'' @ canonicalName) = Rejected summary
      \<and> \<not> summaryIncludes summary ''path/conflict'' \<longrightarrow>
      createFolderFromTemplate env tr parentPath canonicalName
        = (case create_folder_v2 env (tr @ [CopyV2 TEMPLATE_PATH (parentPath @ ''/'' @ canonicalName)])
                  (parentPath @ ''/'' @ canonicalName) of
             Rejected created \<Rightarrow>
               (if summaryIncludes created ''path/conflict/folder''
                then Some \<lparr>md_name = canonicalName,
                           md_path_display = parentPath @ ''/'' @ canonicalName\<rparr>
                else None)
           | Resolved None \<Rightarrow> None
           | Resolved (Some md) \<Rightarrow> Some md,
           tr @ [CopyV2 TEMPLATE_PATH (parentPath @ ''/'' @ canonicalName),
                 CreateFolderV2 (parentPath @ ''/'' @ canonicalName)]))"
  by (simp add: createFolderFromTemplate_conflict createFolderFromTemplate_fallback
        createFolder_eq split: reply.splits option.splits)

theorem C4_fallback_chain_witness:
  "createFolderFromTemplate envC [] ''/p'' ''2001 - A''
     = (Some \<lparr>md_name = ''2001 - A'', md_path_display = ''/p/2001 - A''\<rparr>,
        [CopyV2 TEMPLATE_PATH ''/p/2001 - A''])
   \<and> createFolderFromTemplate envB [] ''/p'' ''2001 - A''
     = (Some \<lparr>md_name = ''2001 - A'', md_path_display = ''/p/2001 - A''\<rparr>,
        [CopyV2 TEMPLATE_PATH ''/p/2001 - A'', CreateFolderV2 ''/p/2001 - A''])"
proof -
  have c: "copy_v2 envC [] TEMPLATE_PATH (''/p'' @ ''/'' @ ''2001 - A'')
             = Rejected (Some ''path/conflict/folder/..'')
           \<and> summaryIncludes (Some ''path/conflict/folder/..'') ''path/conflict''"
    by (simp add: envC_def envA_def summaryIncludes_def)
  have b: "copy_v2 envB [] TEMPLATE_PATH (''/p'' @ ''/'' @ ''2001 - A'')
             = Rejected (Some ''path/not_found/..'')
           \<and> \<not> summaryIncludes (Some ''path/not_found/..'') ''path/conflict''"
    by (simp add: envB_def envA_def summaryIncludes_def)
  have b2: "create_folder_v2 envB ([] @ [CopyV2 TEMPLATE_PATH (''/p'' @ ''/'' @ ''2001 - A'')])
              (''/p'' @ ''/'' @ ''2001 - A'') = Rejected (Some ''path/conflict/folder/..'')
            \<and> summaryIncludes (Some ''path/conflict/folder/..'') ''path/conflict/folder''"
    by (simp add: envB_def envA_def summaryIncludes_def)
  from c C4_fallback_chain[of envC "[]" "''/p''" "''2001 - A''" "Some ''path/conflict/folder/..''"]
  have 1: "createFolderFromTemplate envC [] ''/p'' ''2001 - A''
     = (Some \<lparr>md_name = ''2001 - A'', md_path_display = ''/p/2001 - A''\<rparr>,
        [CopyV2 TEMPLATE_PATH ''/p/2001 - A''])"
    by simp
  from b b2 C4_fallback_chain[of envB "[]" "''/p''" "''2001 - A''" "Some ''path/not_found/..''"]
  have 2: "createFolderFromTemplate envB [] ''/p'' ''2001 - A''
     = (Some \<lparr>md_name = ''2001 - A'', md_path_display = ''/p/2001 - A''\<rparr>,
        [CopyV2 TEMPLATE_PATH ''/p/2001 - A'', CreateFolderV2 ''/p/2001 - A''])"
    by simp
  from 1 2 show ?thesis by simp
qed

section \<open>Properties of the token manager\<close>

lemmas eval_token = getValidAccessToken_def readTokens_def needsRefresh_def tokenExpiry_def Let_def

text \<open>
  C9, as stated: the token is refreshed when \<open>now >= expiresAt - 60s\<close>. The source
  compares \<^verbatim>\<open>tokenExpiry < now\<close>: at the instant \<open>now = expiresAt - 60s\<close> the cached
  token is returned and the token endpoint is not contacted.
\<close>

theorem C9_boundary_counterexample:
  "tokenExpiry cachedTokens = Some 3540000
   \<and> clock envEdge (trace stT) = 3540000
   \<and> getValidAccessToken envEdge stT = (Inr (Str ''cached''), stT\<lparr>trace := [DateNow 3540000]\<rparr>)"
  by (simp add: eval_token envEdge_def envA_def stT_def cachedTokens_def)

lemma readTokens_cases:
  "(tokenFile st = None \<longrightarrow>
      readTokens st = \<lparr>access_token = Undefined, refresh_token = Undefined,
                       expires_in = None, obtained_at = None\<rparr>)
   \<and> (tokenFile st = Some parsed \<longrightarrow> readTokens st = parsed)"
  by (simp add: readTokens_def)

lemma getValidAccessToken_cached:
  assumes "t = readTokens st" "truthy (access_token t)"
    and "obtained_at t = Some obtained" "expires_in t = Some expires"
    and "clock env (trace st) \<le> obtained + expires * 1000 - 60000"
  shows "getValidAccessToken env st
           = (Inr (access_token t), st\<lparr>trace := trace st @ [DateNow (clock env (trace st))]\<rparr>)"
  using assms by (simp add: getValidAccessToken_def needsRefresh_def tokenExpiry_def Let_def)

lemma getValidAccessToken_untimed:
  assumes "t = readTokens st" "truthy (access_token t)"
    and "obtained_at t = None \<or> expires_in t = None"
  shows "getValidAccessToken env st
           = (Inr (access_token t), st\<lparr>trace := trace st @ [DateNow (clock env (trace st))]\<rparr>)"
  using assms
  by (auto simp: getValidAccessToken_def needsRefresh_def tokenExpiry_def Let_def
           split: option.splits)

lemma needsRefresh_iff:
  assumes "\<not> truthy (access_token t)
           \<or> (obtained_at t = Some obtained \<and> expires_in t = Some expires
               \<and> obtained + expires * 1000 - 60000 < now)"
  shows "needsRefresh t now"
  using assms by (auto simp: needsRefresh_def tokenExpiry_def)

lemma getValidAccessToken_rejected:
  assumes "t = readTokens st" "needsRefresh t (clock env (trace st))"
    and "trRead = trace st @ [DateNow (clock env (trace st))]"
    and "trPost = trRead @ [TokenPost (refresh_token t)]"
    and "token_post env trRead (refresh_token t) = Rejected u"
  shows "getValidAccessToken env st = (Inl HttpError, st\<lparr>trace := trPost\<rparr>)"
  using assms by (simp add: getValidAccessToken_def Let_def)

lemma getValidAccessToken_refreshed:
  assumes "t = readTokens st" "needsRefresh t (clock env (trace st))"
    and "trRead = trace st @ [DateNow (clock env (trace st))]"
    and "trPost = trRead @ [TokenPost (refresh_token t)]"
    and "token_post env trRead (refresh_token t) = Resolved response"
    and "stamped = response\<lparr>obtained_at := Some (clock env trPost)\<rparr>"
    and "write_file env (trPost @ [DateNow (clock env trPost)]) stamped"
  shows "getValidAccessToken env st
           = (Inr (access_token response),
              st\<lparr>trace := trPost @ [DateNow (clock env trPost), WriteTokenFile stamped],
                 tokenFile := Some stamped\<rparr>)"
  using assms by (simp add: getValidAccessToken_def Let_def)

lemma getValidAccessToken_write_failed:
  assumes "t = readTokens st" "needsRefresh t (clock env (trace st))"
    and "trRead = trace st @ [DateNow (clock env (trace st))]"
    and "trPost = trRead @ [TokenPost (refresh_token t)]"
    and "token_post env trRead (refresh_token t) = Resolved response"
    and "stamped = response\<lparr>obtained_at := Some (clock env trPost)\<rparr>"
    and "\<not> write_file env (trPost @ [DateNow (clock env trPost)]) stamped"
  shows "getValidAccessToken env st
           = (Inl IOError,
              st\<lparr>trace := trPost @ [DateNow (clock env trPost), WriteTokenFile stamped]\<rparr>)"
  using assms by (simp add: getValidAccessToken_def Let_def)

text \<open>
  C9, amended: the credential \<open>t\<close> is the parsed file, or the empty object when the file
  cannot be read. If it has an access token and \<open>now <= expiresAt - 60s\<close>,
  \<open>getValidAccessToken\<close> returns the cached token and contacts nothing (and so it does when
  a time field is absent, the comparison with NaN being false). If the access token is
  absent or \<open>now > expiresAt - 60s\<close>, it posts the refresh token to the token endpoint: a
  rejected exchange is rethrown, with the file untouched; a resolved one is stamped with a
  newly read acquisition time and written to the file before the new access token is
  returned; a failed write is rethrown.
\<close>

theorem C9_refresh_when_needed:
  "(tokenFile st = None \<longrightarrow>
      readTokens st = \<lparr>access_token = Undefined, refresh_token = Undefined,
                       expires_in = None, obtained_at = None\<rparr>)
   \<and> (tokenFile st = Some parsed \<longrightarrow> readTokens st = parsed)
   \<and> (t = readTokens st \<and> truthy (access_token t)
      \<and> obtained_at t = Some obtained \<and> expires_in t = Some expires
      \<and> clock env (trace st) \<le> obtained + expires * 1000 - 60000 \<longrightarrow>
      getValidAccessToken env st
        = (Inr (access_token t), st\<lparr>trace := trace st @ [DateNow (clock env (trace st))]\<rparr>))
   \<and> (t = readTokens st \<and> truthy (access_token t)
      \<and> (obtained_at t = None \<or> expires_in t = None) \<longrightarrow>
      getValidAccessToken env st
        = (Inr (access_token t), st\<lparr>trace := trace st @ [DateNow (clock env (trace st))]\<rparr>))
   \<and> (t = readTokens st
      \<and> (\<not> truthy (access_token t)
          \<or> (obtained_at t = Some obtained \<and> expires_in t = Some expires
              \<and> obtained + expires * 1000 - 60000 < clock env (trace st)))
      \<and> trRead = trace st @ [DateNow (clock env (trace st))]
      \<and> trPost = trRead @ [TokenPost (refresh_token t)] \<longrightarrow>
      (token_post env trRead (refresh_token t) = Rejected u \<longrightarrow>
         getValidAccessToken env st = (Inl HttpError, st\<lparr>trace := trPost\<rparr>))
      \<and> (token_post env trRead (refresh_token t) = Resolved response
          \<and> stamped = response\<lparr>obtained_at := Some (clock env trPost)\<rparr>
          \<and> write_file env (trPost @ [DateNow (clock env trPost)]) stamped \<longrightarrow>
         getValidAccessToken env st
           = (Inr (access_token response),
              st\<lparr>trace := trPost @ [DateNow (clock env trPost), WriteTokenFile stamped],
                 tokenFile := Some stamped\<rparr>))
      \<and> (token_post env trRead (refresh_token t) = Resolved response
          \<and> stamped = response\<lparr>obtained_at := Some (clock env trPost)\<rparr>
          \<and> \<not> write_file env (trPost @ [DateNow (clock env trPost)]) stamped \<longrightarrow>
         getValidAccessToken env st
           = (Inl IOError,
              st\<lparr>trace := trPost @ [DateNow (clock env trPost), WriteTokenFile stamped]\<rparr>)))"
  using readTokens_cases[of st parsed]
        getValidAccessToken_cached[of t st obtained expires env]
        getValidAccessToken_untimed[of t st env]
        needsRefresh_iff[of t obtained expires "clock env (trace st)"]
        getValidAccessToken_rejected[of t st env trRead trPost u]
        getValidAccessToken_refreshed[of t st env trRead trPost response stamped]
        getValidAccessToken_write_failed[of t st env trRead trPost response stamped]
  by blast

theorem C9_refresh_when_needed_witness:
  "getValidAccessToken envA stT = (Inr (Str ''cached''), stT\<lparr>trace := [DateNow 1000]\<rparr>)
   \<and> getValidAccessToken envLate stUntimed
       = (Inr (Str ''cached''), stUntimed\<lparr>trace := [DateNow 3540001]\<rparr>)
   \<and> readTokens stNoToken = \<lparr>access_token = Undefined, refresh_token = Undefined,
                               expires_in = None, obtained_at = None\<rparr>
   \<and> getValidAccessToken envA stNoToken
       = (Inl HttpError, stNoToken\<lparr>trace := [DateNow 1000, TokenPost Undefined]\<rparr>)
   \<and> getValidAccessToken envLate (stT\<lparr>trace := [DateNow 5]\<rparr>)
     = (Inr (Str ''fresh''),
        stT\<lparr>trace := [DateNow 5, DateNow 3540002, TokenPost (Str ''refresh''), DateNow 3540004,
                       WriteTokenFile (freshTokens\<lparr>obtained_at := Some 3540004\<rparr>)],
            tokenFile := Some (freshTokens\<lparr>obtained_at := Some 3540004\<rparr>)\<rparr>)
   \<and> getValidAccessToken envWriteFails (stT\<lparr>trace := [DateNow 5]\<rparr>)
     = (Inl IOError,
        stT\<lparr>trace := [DateNow 5, DateNow 3540002, TokenPost (Str ''refresh''), DateNow 3540004,
                       WriteTokenFile (freshTokens\<lparr>obtained_at := Some 3540004\<rparr>)]\<rparr>)"
proof -
  note main = C9_refresh_when_needed
  let ?late = "stT\<lparr>trace := [DateNow 5]\<rparr>"
  let ?trRead = "[DateNow 5, DateNow 3540002]"
  let ?trPost = "[DateNow 5, DateNow 3540002, TokenPost (Str ''refresh'')]"
  let ?stamped = "freshTokens\<lparr>obtained_at := Some 3540004\<rparr>"
  have rT: "readTokens stT = cachedTokens" "readTokens ?late = cachedTokens"
    using main[where st = stT and parsed = cachedTokens]
          main[where st = ?late and parsed = cachedTokens]
    by (simp_all add: stT_def)
  have rU: "readTokens stUntimed = cachedTokens\<lparr>expires_in := None\<rparr>"
    using main[where st = stUntimed and parsed = "cachedTokens\<lparr>expires_in := None\<rparr>"]
    by (simp add: stUntimed_def stT_def)
  have rN: "readTokens stNoToken = \<lparr>access_token = Undefined, refresh_token = Undefined,
                               expires_in = None, obtained_at = None\<rparr>"
    using main[where st = stNoToken] by (simp add: stNoToken_def stReady_def)
  have a: "getValidAccessToken envA stT = (Inr (Str ''cached''), stT\<lparr>trace := [DateNow 1000]\<rparr>)"
    using rT(1) main[where st = stT and t = cachedTokens and obtained = 0 and expires = 3600
                       and env = envA]
    by (simp add: stT_def cachedTokens_def envA_def)
  have b: "getValidAccessToken envLate stUntimed
       = (Inr (Str ''cached''), stUntimed\<lparr>trace := [DateNow 3540001]\<rparr>)"
    using rU main[where st = stUntimed and t = "cachedTokens\<lparr>expires_in := None\<rparr>"
                    and env = envLate]
    by (simp add: stUntimed_def stT_def cachedTokens_def envLate_def envA_def)
  have c: "getValidAccessToken envA stNoToken
       = (Inl HttpError, stNoToken\<lparr>trace := [DateNow 1000, TokenPost Undefined]\<rparr>)"
    using rN main[where st = stNoToken
                    and t = "\<lparr>access_token = Undefined, refresh_token = Undefined,
                               expires_in = None, obtained_at = None\<rparr>"
                    and env = envA and trRead = "[DateNow 1000]"
                    and trPost = "[DateNow 1000, TokenPost Undefined]" and u = "()"]
    by (simp add: stNoToken_def stReady_def envA_def)
  have d: "getValidAccessToken envLate ?late
     = (Inr (Str ''fresh''),
        stT\<lparr>trace := [DateNow 5, DateNow 3540002, TokenPost (Str ''refresh''), DateNow 3540004,
                       WriteTokenFile ?stamped],
            tokenFile := Some ?stamped\<rparr>)"
    using rT(2) main[where st = ?late and t = cachedTokens and obtained = 0 and expires = 3600
                       and env = envLate and trRead = ?trRead and trPost = ?trPost
                       and response = freshTokens and stamped = ?stamped]
    by (simp add: stT_def cachedTokens_def freshTokens_def envLate_def envA_def)
  have e: "getValidAccessToken envWriteFails ?late
     = (Inl IOError,
        stT\<lparr>trace := [DateNow 5, DateNow 3540002, TokenPost (Str ''refresh''), DateNow 3540004,
                       WriteTokenFile ?stamped]\<rparr>)"
    using rT(2) main[where st = ?late and t = cachedTokens and obtained = 0 and expires = 3600
                       and env = envWriteFails and trRead = ?trRead and trPost = ?trPost
                       and response = freshTokens and stamped = ?stamped]
    by (simp add: stT_def cachedTokens_def freshTokens_def envWriteFails_def envLate_def
          envA_def)
  from a b rN c d e show ?thesis by simp
qed

section \<open>Properties of the sync loop\<close>

lemma storage_calls_no_window: "list_all isStorageCall cs \<Longrightarrow> windowStarts cs = []"
  by (induction cs rule: windowStarts.induct) simp_all

lemma windowStarts_append: "windowStarts (xs @ ys) = windowStarts xs @ windowStarts ys"
  by (induction xs rule: windowStarts.induct) simp_all

lemma newCalls_append [simp]: "newCalls tr (tr @ cs) = cs"
  by (simp add: newCalls_def)

lemma newCalls_same [simp]: "newCalls tr tr = []"
  by (simp add: newCalls_def)

lemma getValidAccessToken_state:
  "\<exists>cs. snd (getValidAccessToken env st) = (snd (getValidAccessToken env st))
            \<lparr>trace := trace st @ cs\<rparr>
        \<and> trace (snd (getValidAccessToken env st)) = trace st @ cs
        \<and> windowStarts cs = [] \<and> list_all (\<lambda>c. \<not> isStorageCall c) cs
        \<and> lastChecked (snd (getValidAccessToken env st)) = lastChecked st
        \<and> folderIds (snd (getValidAccessToken env st)) = folderIds st"
  by (simp add: getValidAccessToken_def Let_def split: reply.splits)

lemma checkExistingJobFolders_trace:
  "snd (checkExistingJobFolders env tr parentPath pattern) = tr @ [ListFolder parentPath]"
  by (simp add: checkExistingJobFolders_def Let_def split: reply.splits)

lemma createFolderFromTemplate_storage:
  "\<exists>cs. snd (createFolderFromTemplate env tr parentPath folderName) = tr @ cs
        \<and> list_all isStorageCall cs"
  by (simp add: createFolderFromTemplate_def createFolder_eq Let_def
           split: reply.splits option.splits)

lemma provisionUnlessSibling_storage:
  "\<exists>cs. snd (provisionUnlessSibling env tr jobNo dest name) = tr @ cs \<and> list_all isStorageCall cs"
proof (cases "CHR ''_'' \<in> set jobNo")
  case False
  then show ?thesis
    using createFolderFromTemplate_storage[of env tr dest name]
    by (simp add: provisionUnlessSibling_def)
next
  case True
  show ?thesis
  proof (cases "baseJobFolderPattern env (takeWhile (\<lambda>c. c \<noteq> CHR ''_'') jobNo)")
    case (Inl e)
    with True show ?thesis by (simp add: provisionUnlessSibling_def)
  next
    case (Inr pattern)
    obtain found tr2 where c: "checkExistingJobFolders env tr dest pattern = (found, tr2)"
      by (cases "checkExistingJobFolders env tr dest pattern")
    then have tr2: "tr2 = tr @ [ListFolder dest]"
      using checkExistingJobFolders_trace[of env tr dest pattern] by simp
    obtain cs where cs: "snd (createFolderFromTemplate env tr2 dest name) = tr2 @ cs"
        "list_all isStorageCall cs"
      using createFolderFromTemplate_storage[of env tr2 dest name] by blast
    show ?thesis
    proof (cases "found = []")
      case True
      with \<open>CHR ''_'' \<in> set jobNo\<close> Inr c cs tr2 show ?thesis
        by (simp add: provisionUnlessSibling_def)
    next
      case False
      with \<open>CHR ''_'' \<in> set jobNo\<close> Inr c tr2 show ?thesis
        by (simp add: provisionUnlessSibling_def)
    qed
  qed
qed

lemma screenAndProvision_storage:
  "\<exists>cs. snd (screenAndProvision env tr jobNo dest name) = tr @ cs \<and> list_all isStorageCall cs"
proof (cases "fst (checkFolderExists env tr dest name)")
  case True
  then show ?thesis
    by (simp add: screenAndProvision_def checkFolderExists_eq split: reply.splits)
next
  case False
  obtain cs where "snd (provisionUnlessSibling env (tr @ [GetMetadata (dest @ ''/'' @ name)])
                          jobNo dest name) = (tr @ [GetMetadata (dest @ ''/'' @ name)]) @ cs"
      "list_all isStorageCall cs"
    using provisionUnlessSibling_storage by blast
  with False show ?thesis
    by (simp add: screenAndProvision_def checkFolderExists_eq split: reply.splits)
qed

lemma processJob_storage:
  "\<exists>cs. snd (snd (processJob env fids j seen tr)) = tr @ cs \<and> list_all isStorageCall cs"
proof -
  have "\<And>jobNo dest name thrown tr'.
          screenAndProvision env tr jobNo dest name = (thrown, tr') \<Longrightarrow>
          \<exists>cs. tr' = tr @ cs \<and> list_all isStorageCall cs"
    using screenAndProvision_storage by (metis snd_conv)
  then show ?thesis
    by (auto simp: processJob_def split: jsval.splits option.splits sum.splits prod.splits)
qed

lemma processJobs_storage:
  "\<exists>cs. snd (snd (processJobs env fids js seen tr)) = tr @ cs \<and> list_all isStorageCall cs"
proof (induction js arbitrary: seen tr)
  case Nil
  show ?case by simp
next
  case (Cons j js)
  obtain thrown seen1 tr1 where p: "processJob env fids j seen tr = (thrown, seen1, tr1)"
    by (cases "processJob env fids j seen tr") auto
  obtain cs1 where cs1: "tr1 = tr @ cs1" "list_all isStorageCall cs1"
    using processJob_storage[of env fids j seen tr] p by auto
  show ?case
  proof (cases thrown)
    case (Some e)
    with p cs1 show ?thesis by simp
  next
    case None
    obtain cs2 where "snd (snd (processJobs env fids js seen1 tr1)) = tr1 @ cs2"
        "list_all isStorageCall cs2"
      using Cons.IH by blast
    with None p cs1 show ?thesis by simp
  qed
qed

lemma pollBody_token_failure:
  "getValidAccessToken env st = (Inl e, st1) \<Longrightarrow> pollBody env st = (Some e, st1)"
  by (simp add: pollBody_def)

lemma pollBody_fetch_failure:
  "getValidAccessToken env st = (Inr tok, st1) \<Longrightarrow>
   wfx_get env (trace st1 @ [DateNow (clock env (trace st1))]) tok (lastChecked st1)
     (clock env (trace st1)) = Rejected u \<Longrightarrow>
   pollBody env st
     = (Some HttpError,
        st1\<lparr>trace := trace st1 @ [DateNow (clock env (trace st1)),
                                    WfxGet tok (lastChecked st1) (clock env (trace st1))]\<rparr>)"
  by (simp add: pollBody_def Let_def)

lemma pollBody_thrown:
  "getValidAccessToken env st = (Inr tok, st1) \<Longrightarrow>
   wfx_get env (trace st1 @ [DateNow (clock env (trace st1))]) tok (lastChecked st1)
     (clock env (trace st1)) = Resolved jobs \<Longrightarrow>
   processJobs env (folderIds st1) jobs []
     (trace st1 @ [DateNow (clock env (trace st1)),
                   WfxGet tok (lastChecked st1) (clock env (trace st1))]) = (Some e, seen, tr) \<Longrightarrow>
   pollBody env st = (Some e, st1\<lparr>trace := tr\<rparr>)"
  by (simp add: pollBody_def Let_def)

lemma pollBody_completed:
  "getValidAccessToken env st = (Inr tok, st1) \<Longrightarrow>
   wfx_get env (trace st1 @ [DateNow (clock env (trace st1))]) tok (lastChecked st1)
     (clock env (trace st1)) = Resolved jobs \<Longrightarrow>
   processJobs env (folderIds st1) jobs []
     (trace st1 @ [DateNow (clock env (trace st1)),
                   WfxGet tok (lastChecked st1) (clock env (trace st1))]) = (None, seen, tr) \<Longrightarrow>
   pollBody env st
     = (None, st1\<lparr>lastChecked := clock env tr, trace := tr @ [DateNow (clock env tr)]\<rparr>)"
  by (simp add: pollBody_def Let_def)

lemma pollBody_state:
  "\<exists>cs. trace (snd (pollBody env st)) = trace st @ cs
        \<and> set (windowStarts cs) \<subseteq> {lastChecked st}"
proof -
  obtain r st1 where g: "getValidAccessToken env st = (r, st1)"
    by (cases "getValidAccessToken env st")
  obtain cs1 where cs1: "trace st1 = trace st @ cs1" "windowStarts cs1 = []"
      and lc: "lastChecked st1 = lastChecked st"
    using getValidAccessToken_state[of env st] g by auto
  show ?thesis
  proof (cases r)
    case (Inl e)
    with g have "pollBody env st = (Some e, st1)" by (simp add: pollBody_token_failure)
    with cs1 show ?thesis by simp
  next
    case (Inr tok)
    define now where "now = clock env (trace st1)"
    define tr3 where "tr3 = trace st1 @ [DateNow now, WfxGet tok (lastChecked st1) now]"
    have w3: "tr3 = trace st @ (cs1 @ [DateNow now, WfxGet tok (lastChecked st1) now])"
      by (simp add: tr3_def cs1(1))
    have ws3: "windowStarts (cs1 @ [DateNow now, WfxGet tok (lastChecked st1) now])
                 = [lastChecked st]"
      by (simp add: windowStarts_append cs1(2) lc)
    show ?thesis
    proof (cases "wfx_get env (trace st1 @ [DateNow now]) tok (lastChecked st1) now")
      case (Rejected u)
      with g Inr have "pollBody env st = (Some HttpError, st1\<lparr>trace := tr3\<rparr>)"
        unfolding now_def tr3_def by (simp add: pollBody_fetch_failure)
      then have "trace (snd (pollBody env st))
                   = trace st @ (cs1 @ [DateNow now, WfxGet tok (lastChecked st1) now])"
        using w3 by simp
      with ws3 show ?thesis by (metis empty_set list.simps(15) subset_refl)
    next
      case (Resolved jobs)
      obtain thrown seen tr where p:
        "processJobs env (folderIds st1) jobs [] tr3 = (thrown, seen, tr)"
        by (cases "processJobs env (folderIds st1) jobs [] tr3") auto
      obtain cs where cs: "tr = tr3 @ cs" "list_all isStorageCall cs"
        using processJobs_storage[of env "folderIds st1" jobs "[]" tr3] p by auto
      have w: "windowStarts cs = []" using cs(2) by (rule storage_calls_no_window)
      show ?thesis
      proof (cases thrown)
        case (Some e)
        with g Inr Resolved p have "pollBody env st = (Some e, st1\<lparr>trace := tr\<rparr>)"
          unfolding now_def tr3_def by (simp add: pollBody_thrown)
        then have "trace (snd (pollBody env st))
                   = trace st @ ((cs1 @ [DateNow now, WfxGet tok (lastChecked st1) now]) @ cs)"
          using w3 cs(1) by simp
        moreover have "windowStarts ((cs1 @ [DateNow now, WfxGet tok (lastChecked st1) now]) @ cs)
                         = [lastChecked st]"
          using ws3 w by (simp only: windowStarts_append append_Nil2)
        ultimately show ?thesis by (metis empty_set list.simps(15) subset_refl)
      next
        case None
        with g Inr Resolved p have "pollBody env st
            = (None, st1\<lparr>lastChecked := clock env tr, trace := tr @ [DateNow (clock env tr)]\<rparr>)"
          unfolding now_def tr3_def by (simp add: pollBody_completed)
        then have "trace (snd (pollBody env st))
                   = trace st @ ((cs1 @ [DateNow now, WfxGet tok (lastChecked st1) now])
                                   @ cs @ [DateNow (clock env tr)])"
          using w3 cs(1) by simp
        moreover have "windowStarts ((cs1 @ [DateNow now, WfxGet tok (lastChecked st1) now])
                                   @ cs @ [DateNow (clock env tr)]) = [lastChecked st]"
          using ws3 w by (simp add: windowStarts_append del: append_assoc)
        ultimately show ?thesis by (metis empty_set list.simps(15) subset_refl)
      qed
    qed
  qed
qed

lemma pollCycle_window:
  "set (windowStarts (newCalls (trace st) (trace (pollCycle env st)))) \<subseteq> {lastChecked st}"
proof -
  obtain cs where "trace (snd (pollBody env st)) = trace st @ cs"
      "set (windowStarts cs) \<subseteq> {lastChecked st}"
    using pollBody_state by blast
  then show ?thesis by (simp add: pollCycle_def)
qed

lemma pollCycle_token_failure:
  assumes "fst (getValidAccessToken env st) = Inl e"
  shows "lastChecked (pollCycle env st) = lastChecked st
         \<and> list_all (\<lambda>c. \<not> isStorageCall c) (newCalls (trace st) (trace (pollCycle env st)))"
proof -
  obtain st1 where g: "getValidAccessToken env st = (Inl e, st1)"
    using assms by (cases "getValidAccessToken env st") auto
  obtain cs1 where cs1: "trace st1 = trace st @ cs1" "list_all (\<lambda>c. \<not> isStorageCall c) cs1"
      "lastChecked st1 = lastChecked st"
    using getValidAccessToken_state[of env st] g by auto
  have "pollBody env st = (Some e, st1)" using g by (rule pollBody_token_failure)
  with cs1 show ?thesis by (simp add: pollCycle_def)
qed

lemma pollCycle_fetch_failure:
  assumes "getValidAccessToken env st = (Inr tok, st1)"
    and "wfx_get env (trace st1 @ [DateNow (clock env (trace st1))]) tok (lastChecked st)
           (clock env (trace st1)) = Rejected u"
  shows "lastChecked (pollCycle env st) = lastChecked st
         \<and> list_all (\<lambda>c. \<not> isStorageCall c) (newCalls (trace st) (trace (pollCycle env st)))"
proof -
  obtain cs1 where cs1: "trace st1 = trace st @ cs1" "list_all (\<lambda>c. \<not> isStorageCall c) cs1"
      "lastChecked st1 = lastChecked st"
    using getValidAccessToken_state[of env st] assms(1) by auto
  have "pollBody env st
     = (Some HttpError,
        st1\<lparr>trace := trace st1 @ [DateNow (clock env (trace st1)),
                                    WfxGet tok (lastChecked st1) (clock env (trace st1))]\<rparr>)"
    using assms cs1(3) by (simp add: pollBody_fetch_failure)
  with cs1 show ?thesis by (simp add: pollCycle_def)
qed

text \<open>
  C8: when the credential refresh throws, or the fetch is rejected, the cycle ends with
  \<open>lastChecked\<close> as it was and without any call to the storage service; the fetch of the
  failed cycle, if it was made, and every fetch of the next cycle (whatever the environment
  answers then) have that same \<open>lastChecked\<close> as their lower bound. The callback returns a
  state in every case: the handler of line 446 catches the exception.
\<close>

theorem C8_checkpoint_stable_on_failure:
  "(fst (getValidAccessToken env st) = Inl e
    \<or> (getValidAccessToken env st = (Inr tok, st1)
        \<and> wfx_get env (trace st1 @ [DateNow (clock env (trace st1))]) tok (lastChecked st)
              (clock env (trace st1)) = Rejected u))
   \<longrightarrow> lastChecked (pollCycle env st) = lastChecked st
       \<and> list_all (\<lambda>c. \<not> isStorageCall c) (newCalls (trace st) (trace (pollCycle env st)))
       \<and> set (windowStarts (newCalls (trace st) (trace (pollCycle env st)))) \<subseteq> {lastChecked st}
       \<and> set (windowStarts (newCalls (trace (pollCycle env st))
                             (trace (pollCycle env' (pollCycle env st))))) \<subseteq> {lastChecked st}"
proof
  assume a: "fst (getValidAccessToken env st) = Inl e
    \<or> (getValidAccessToken env st = (Inr tok, st1)
        \<and> wfx_get env (trace st1 @ [DateNow (clock env (trace st1))]) tok (lastChecked st)
              (clock env (trace st1)) = Rejected u)"
  then have same: "lastChecked (pollCycle env st) = lastChecked st
         \<and> list_all (\<lambda>c. \<not> isStorageCall c) (newCalls (trace st) (trace (pollCycle env st)))"
    using pollCycle_token_failure pollCycle_fetch_failure by blast
  moreover have "set (windowStarts (newCalls (trace st) (trace (pollCycle env st))))
                   \<subseteq> {lastChecked st}"
    by (rule pollCycle_window)
  moreover have "set (windowStarts (newCalls (trace (pollCycle env st))
                             (trace (pollCycle env' (pollCycle env st)))))
                   \<subseteq> {lastChecked (pollCycle env st)}"
    by (rule pollCycle_window)
  ultimately show "lastChecked (pollCycle env st) = lastChecked st
       \<and> list_all (\<lambda>c. \<not> isStorageCall c) (newCalls (trace st) (trace (pollCycle env st)))
       \<and> set (windowStarts (newCalls (trace st) (trace (pollCycle env st)))) \<subseteq> {lastChecked st}
       \<and> set (windowStarts (newCalls (trace (pollCycle env st))
                             (trace (pollCycle env' (pollCycle env st))))) \<subseteq> {lastChecked st}"
    by simp
qed

lemmas eval_cycle =
  pollCycle_def pollBody_def eval_token processJob_def screenAndProvision_def
  provisionUnlessSibling_def checkFolderExists_def checkExistingJobFolders_def
  baseJobFolderPattern_def matchesBase_def isSyntaxChar_def createFolderFromTemplate_def
  createFolder_def summaryIncludes_def folderPathFor_def
  KEY_PROJECT_JOBS_def KEY_SURVEY_def KEY_SURVEYORS_def

lemma envDown_cycle:
  "pollCycle envDown stReady
     = stReady\<lparr>trace := [DateNow 1000, DateNow 1010, WfxGet (Str ''cached'') 0 1010]\<rparr>"
  by (simp add: eval_cycle envDown_def envA_def stReady_def readyFolders_def cachedTokens_def)

theorem C8_checkpoint_stable_on_failure_witness:
  "getValidAccessToken envDown stReady = (Inr (Str ''cached''), stReady\<lparr>trace := [DateNow 1000]\<rparr>)
   \<and> wfx_get envDown [DateNow 1000, DateNow 1010] (Str ''cached'') 0 1010 = Rejected ()
   \<and> lastChecked (pollCycle envDown stReady) = 0
   \<and> trace (pollCycle envDown stReady) = [DateNow 1000, DateNow 1010, WfxGet (Str ''cached'') 0 1010]
   \<and> windowStarts (newCalls (trace (pollCycle envDown stReady))
                      (trace (pollCycle envDown (pollCycle envDown stReady)))) = [0]
   \<and> fst (getValidAccessToken envA stNoToken) = Inl HttpError
   \<and> lastChecked (pollCycle envA stNoToken) = 0
   \<and> trace (pollCycle envA stNoToken) = [DateNow 1000, TokenPost Undefined]"
proof -
  have g: "getValidAccessToken envDown stReady
             = (Inr (Str ''cached''), stReady\<lparr>trace := [DateNow 1000]\<rparr>)"
    by (simp add: eval_token envDown_def envA_def stReady_def cachedTokens_def)
  have f: "wfx_get envDown [DateNow 1000, DateNow 1010] (Str ''cached'') 0 1010 = Rejected ()"
    by (simp add: envDown_def envA_def)
  have c: "clock envDown [DateNow 1000] = 1010"
    by (simp add: envDown_def envA_def)
  have l: "lastChecked stReady = 0" by (simp add: stReady_def)
  have second: "trace (pollCycle envDown (pollCycle envDown stReady))
      = [DateNow 1000, DateNow 1010, WfxGet (Str ''cached'') 0 1010,
         DateNow 1030, DateNow 1040, WfxGet (Str ''cached'') 0 1040]"
    unfolding envDown_cycle
    by (simp add: eval_cycle envDown_def envA_def stReady_def readyFolders_def cachedTokens_def)
  from g f c l
    C8_checkpoint_stable_on_failure[of envDown stReady HttpError "Str ''cached''"
      "stReady\<lparr>trace := [DateNow 1000]\<rparr>" "()" envDown]
  have 1: "lastChecked (pollCycle envDown stReady) = 0" by simp
  have t: "fst (getValidAccessToken envA stNoToken) = Inl HttpError"
    by (simp add: eval_token envA_def stNoToken_def stReady_def)
  have l2: "lastChecked stNoToken = 0" by (simp add: stNoToken_def stReady_def)
  from t l2
    C8_checkpoint_stable_on_failure[where env = envA and st = stNoToken and e = HttpError
      and env' = envA]
  have 2: "lastChecked (pollCycle envA stNoToken) = 0" by simp
  have tr2: "trace (pollCycle envA stNoToken) = [DateNow 1000, TokenPost Undefined]"
    by (simp add: eval_cycle envA_def stNoToken_def stReady_def readyFolders_def)
  from g f second 1 t 2 tr2 show ?thesis
    by (simp add: envDown_cycle newCalls_def)
qed

text \<open>
  C2: the checkpoint after a successful batch is the \<open>now\<close> taken as the upper bound of the
  fetch window, so the next window starts where this one ended. The source assigns
  \<^verbatim>\<open>lastChecked = new Date()\<close> after the loop, a later reading of the clock: here the window
  of the first cycle is [0, 1010), the checkpoint becomes 1050, and the second cycle
  fetches from 1050; no window covers [1010, 1050).
\<close>

theorem C2_checkpoint_after_batch:
  "trace (pollCycle envBatch stReady)
     = [DateNow 1000, DateNow 1010, WfxGet (Str ''cached'') 0 1010,
        GetMetadata ''/isa project jobs (2-5)/2001 - ALPHA'',
        CopyV2 TEMPLATE_PATH ''/isa project jobs (2-5)/2001 - ALPHA'', DateNow 1050]
   \<and> lastChecked (pollCycle envBatch stReady) = 1050
   \<and> windowStarts (newCalls (trace (pollCycle envBatch stReady))
        (trace (pollCycle envBatch (pollCycle envBatch stReady)))) = [1050]"
proof -
  have first: "pollCycle envBatch stReady
     = stReady\<lparr>lastChecked := 1050,
         trace := [DateNow 1000, DateNow 1010, WfxGet (Str ''cached'') 0 1010,
           GetMetadata ''/isa project jobs (2-5)/2001 - ALPHA'',
           CopyV2 TEMPLATE_PATH ''/isa project jobs (2-5)/2001 - ALPHA'', DateNow 1050]\<rparr>"
    by (simp add: eval_cycle eval_format envBatch_def envA_def stReady_def readyFolders_def
          cachedTokens_def)
  have second: "windowStarts (newCalls (trace (pollCycle envBatch stReady))
        (trace (pollCycle envBatch (pollCycle envBatch stReady)))) = [1050]"
    unfolding first
    by (simp add: eval_cycle eval_format envBatch_def envA_def stReady_def readyFolders_def
          cachedTokens_def newCalls_def)
  from first second show ?thesis by simp
qed

lemma resolveFolders_missing:
  "findEntry entries ''ISA PROJECT JOBS'' = None
   \<or> findEntry entries ''ISA SURVEY PTY LTD'' = None
   \<or> findEntry entries ''ISA SURVEYORS PTY LTD'' = None \<Longrightarrow>
   resolveFolders (Resolved (Some entries)) old = old"
  by (auto simp: resolveFolders_def split: option.splits)

lemma resolveFolders_all:
  "findEntry entries ''ISA PROJECT JOBS'' = Some a \<Longrightarrow>
   findEntry entries ''ISA SURVEY PTY LTD'' = Some b \<Longrightarrow>
   findEntry entries ''ISA SURVEYORS PTY LTD'' = Some c \<Longrightarrow>
   resolveFolders (Resolved (Some entries)) old
     = Some [(KEY_PROJECT_JOBS, pathOrId a), (KEY_SURVEY, pathOrId b), (KEY_SURVEYORS, pathOrId c)]"
  by (simp add: resolveFolders_def)

lemma startup_folderIds:
  "folderIds (startup env email st) = folderIds st
   \<or> folderIds (startup env email st)
        = resolveFolders (list_folder env (trace st @ [TeamMembersList]) []) (folderIds st)"
  by (simp add: startup_def getTeamMembers_def Let_def split: reply.splits option.splits)

lemma pollCycle_unset: "folderIds st = None \<Longrightarrow> pollCycle env st = st"
  by (simp add: pollCycle_def)

lemmas eval_startup =
  startup_def getTeamMembers_def findTeamMemberByEmail_def toLowerCase_def toLowerChar_def
  resolveFolders_def findEntry_def pathOrId_def Let_def

text \<open>
  C1, as stated: with two of the three fragments found, the mapping holds those two
  categories and items routed to them are processed. In the source the mapping is assigned
  only inside \<^verbatim>\<open>if (isaProjectJobs && isaSurvey && isaSurveyors)\<close>: here nothing is assigned,
  and the cycle returns at its first precondition, without fetching the job 2001 that
  routes to a folder that was found.
\<close>

theorem C1_partial_mapping_counterexample:
  "findEntry twoFolders ''ISA PROJECT JOBS'' \<noteq> None
   \<and> findEntry twoFolders ''ISA SURVEY PTY LTD'' \<noteq> None
   \<and> findEntry twoFolders ''ISA SURVEYORS PTY LTD'' = None
   \<and> startup envPartial ''ops@example.com'' stInitial
       = stInitial\<lparr>teamMemberId := Str ''dbmid:1'', trace := [TeamMembersList, ListFolder []]\<rparr>
   \<and> folderIds (startup envPartial ''ops@example.com'' stInitial) = None
   \<and> pollCycle envPartial (startup envPartial ''ops@example.com'' stInitial)
       = startup envPartial ''ops@example.com'' stInitial"
proof -
  have s: "startup envPartial ''ops@example.com'' stInitial
       = stInitial\<lparr>teamMemberId := Str ''dbmid:1'', trace := [TeamMembersList, ListFolder []]\<rparr>"
    by (simp add: eval_startup envPartial_def envBatch_def envA_def stInitial_def twoFolders_def)
  have f: "findEntry twoFolders ''ISA PROJECT JOBS'' \<noteq> None
   \<and> findEntry twoFolders ''ISA SURVEY PTY LTD'' \<noteq> None
   \<and> findEntry twoFolders ''ISA SURVEYORS PTY LTD'' = None"
    by (simp add: findEntry_def twoFolders_def)
  have p: "pollCycle envPartial (startup envPartial ''ops@example.com'' stInitial)
       = startup envPartial ''ops@example.com'' stInitial"
    unfolding s by (simp add: pollCycle_def stInitial_def)
  from s f p show ?thesis by (simp add: stInitial_def)
qed

text \<open>
  C1, amended: startup resolution is all or nothing. When the namespace-root listing
  succeeds but any of the three name fragments is not found among the top-level entries
  (case-sensitive substring match), the mapping is left as it was, unset at startup; when
  all three are found, the mapping is assigned with exactly the three categories. With the
  mapping unset every polling cycle is skipped entirely: no fetch, no item processed,
  whichever category an item routes to.
\<close>

theorem C1_resolution_all_or_nothing:
  "(findEntry entries ''ISA PROJECT JOBS'' = None
      \<or> findEntry entries ''ISA SURVEY PTY LTD'' = None
      \<or> findEntry entries ''ISA SURVEYORS PTY LTD'' = None \<longrightarrow>
      resolveFolders (Resolved (Some entries)) old = old)
   \<and> (findEntry entries ''ISA PROJECT JOBS'' = Some a
      \<and> findEntry entries ''ISA SURVEY PTY LTD'' = Some b
      \<and> findEntry entries ''ISA SURVEYORS PTY LTD'' = Some c \<longrightarrow>
      resolveFolders (Resolved (Some entries)) old
        = Some [(KEY_PROJECT_JOBS, pathOrId a), (KEY_SURVEY, pathOrId b),
                (KEY_SURVEYORS, pathOrId c)])
   \<and> (folderIds st = None
      \<and> list_folder env (trace st @ [TeamMembersList]) [] = Resolved (Some entries)
      \<and> (findEntry entries ''ISA PROJECT JOBS'' = None
          \<or> findEntry entries ''ISA SURVEY PTY LTD'' = None
          \<or> findEntry entries ''ISA SURVEYORS PTY LTD'' = None) \<longrightarrow>
      folderIds (startup env email st) = None
      \<and> pollCycle env' (startup env email st) = startup env email st)"
proof -
  have third: "folderIds (startup env email st) = None
      \<and> pollCycle env' (startup env email st) = startup env email st"
    if "folderIds st = None"
      and "list_folder env (trace st @ [TeamMembersList]) [] = Resolved (Some entries)"
      and "findEntry entries ''ISA PROJECT JOBS'' = None
          \<or> findEntry entries ''ISA SURVEY PTY LTD'' = None
          \<or> findEntry entries ''ISA SURVEYORS PTY LTD'' = None"
  proof -
    have "resolveFolders (list_folder env (trace st @ [TeamMembersList]) []) (folderIds st) = None"
      using that resolveFolders_missing[of entries None] by simp
    with that(1) startup_folderIds[of env email st]
    have "folderIds (startup env email st) = None" by auto
    then show ?thesis by (simp add: pollCycle_unset)
  qed
  show ?thesis
    using resolveFolders_missing[of entries old] resolveFolders_all[of entries a b c old] third
    by blast
qed

theorem C1_resolution_all_or_nothing_witness:
  "resolveFolders (Resolved (Some twoFolders)) None = None
   \<and> resolveFolders (Resolved (Some threeFolders)) None
       = Some [(KEY_PROJECT_JOBS, Some ''/isa project jobs (2-5)''),
               (KEY_SURVEY, Some ''/isa survey pty ltd (7-8)''),
               (KEY_SURVEYORS, Some ''id:3'')]
   \<and> folderIds (startup envPartial ''ops@example.com'' stInitial) = None
   \<and> pollCycle envBatch (startup envPartial ''ops@example.com'' stInitial)
       = startup envPartial ''ops@example.com'' stInitial"
proof -
  have f2: "findEntry twoFolders ''ISA SURVEYORS PTY LTD'' = None"
    by (simp add: findEntry_def twoFolders_def)
  have f3: "findEntry threeFolders ''ISA PROJECT JOBS'' = Some (twoFolders ! 0)
      \<and> findEntry threeFolders ''ISA SURVEY PTY LTD'' = Some (twoFolders ! 1)
      \<and> findEntry threeFolders ''ISA SURVEYORS PTY LTD'' = Some (threeFolders ! 2)"
    by (simp add: findEntry_def threeFolders_def twoFolders_def)
  have l: "folderIds stInitial = None
      \<and> list_folder envPartial (trace stInitial @ [TeamMembersList]) [] = Resolved (Some twoFolders)"
    by (simp add: stInitial_def envPartial_def envBatch_def envA_def)
  have p: "pathOrId (twoFolders ! 0) = Some ''/isa project jobs (2-5)''
      \<and> pathOrId (twoFolders ! 1) = Some ''/isa survey pty ltd (7-8)''
      \<and> pathOrId (threeFolders ! 2) = Some ''id:3''"
    by (simp add: pathOrId_def threeFolders_def twoFolders_def)
  from f2 l
    C1_resolution_all_or_nothing[where entries = twoFolders and old = None
      and st = stInitial and env = envPartial and env' = envBatch
      and email = "''ops@example.com''"]
  have 1: "resolveFolders (Resolved (Some twoFolders)) None = None
      \<and> folderIds (startup envPartial ''ops@example.com'' stInitial) = None
      \<and> pollCycle envBatch (startup envPartial ''ops@example.com'' stInitial)
          = startup envPartial ''ops@example.com'' stInitial"
    by simp
  from f3 p
    C1_resolution_all_or_nothing[where entries = threeFolders and old = None
      and a = "twoFolders ! 0" and b = "twoFolders ! 1" and c = "threeFolders ! 2"]
  have 2: "resolveFolders (Resolved (Some threeFolders)) None
       = Some [(KEY_PROJECT_JOBS, Some ''/isa project jobs (2-5)''),
               (KEY_SURVEY, Some ''/isa survey pty ltd (7-8)''),
               (KEY_SURVEYORS, Some ''id:3'')]"
    by simp
  from 1 2 show ?thesis by simp
qed

lemma processJob_no_id:
  "\<not> isString (ID j) \<Longrightarrow> processJob env fids j seen tr = (Some TypeError, seen, tr)"
  by (cases "ID j") (simp_all add: processJob_def)

lemma processJob_no_name:
  "ID j = Str jobNo \<Longrightarrow> jobNo \<notin> set seen \<Longrightarrow> DateCreated j = Some created \<Longrightarrow>
   selectDestinationFolder fids (Str jobNo) = Inr (Some dest) \<Longrightarrow> \<not> isString (Name j) \<Longrightarrow>
   processJob env fids j seen tr = (Some TypeError, seen @ [jobNo], tr)"
  by (cases "Name j") (simp_all add: processJob_def formatJobName_def)

lemma processJob_unrouted:
  "ID j = Str jobNo \<Longrightarrow> jobNo \<notin> set seen \<Longrightarrow> DateCreated j = Some created \<Longrightarrow>
   selectDestinationFolder fids (Str jobNo) = Inr None \<Longrightarrow>
   processJob env fids j seen tr = (None, seen @ [jobNo], tr)"
  by (simp add: processJob_def)

lemma processJob_invalid_date:
  "ID j = Str jobNo \<Longrightarrow> jobNo \<notin> set seen \<Longrightarrow> DateCreated j = None \<Longrightarrow>
   processJob env fids j seen tr = (Some RangeError, seen @ [jobNo], tr)"
  by (simp add: processJob_def)

lemma processJob_repeated:
  "ID j = Str jobNo \<Longrightarrow> jobNo \<in> set seen \<Longrightarrow>
   processJob env fids j seen tr = (None, seen, tr)"
  by (simp add: processJob_def)

lemma processJobs_stops:
  "processJobs env fids pre seen tr = (None, seen1, tr1) \<Longrightarrow>
   processJob env fids j seen1 tr1 = (Some e, seen2, tr2) \<Longrightarrow>
   processJobs env fids (pre @ j # post) seen tr = (Some e, seen2, tr2)"
proof (induction pre arbitrary: seen tr)
  case Nil
  then show ?case by simp
next
  case (Cons a pre)
  obtain thrown s' t' where a: "processJob env fids a seen tr = (thrown, s', t')"
    by (cases "processJob env fids a seen tr") auto
  show ?case
  proof (cases thrown)
    case None
    with a Cons.prems(1) have "processJobs env fids pre s' t' = (None, seen1, tr1)" by simp
    from Cons.IH[OF this Cons.prems(2)] a None show ?thesis by simp
  next
    case (Some x)
    with a Cons.prems(1) show ?thesis by simp
  qed
qed

lemma pollCycle_thrown:
  assumes "getValidAccessToken env st = (Inr tok, st1)"
    and "wfx_get env (trace st1 @ [DateNow (clock env (trace st1))]) tok (lastChecked st1)
           (clock env (trace st1)) = Resolved jobs"
    and "processJobs env (folderIds st1) jobs []
           (trace st1 @ [DateNow (clock env (trace st1)),
                         WfxGet tok (lastChecked st1) (clock env (trace st1))]) = (Some e, seen, tr)"
  shows "lastChecked (pollCycle env st) = lastChecked st
         \<and> (pollCycle env st = st \<or> pollCycle env st = st1\<lparr>trace := tr\<rparr>)"
proof -
  have "lastChecked st1 = lastChecked st"
    using getValidAccessToken_state[of env st] assms(1) by auto
  moreover have "pollBody env st = (Some e, st1\<lparr>trace := tr\<rparr>)"
    using assms by (rule pollBody_thrown)
  ultimately show ?thesis by (simp add: pollCycle_def)
qed

text \<open>
  C10, as stated: a batch with an item whose Name is absent throws, the rest of the batch
  goes unprocessed and \<open>lastChecked\<close> stays. The title is read only after the routing: an
  item without Name, with a valid date, whose identifier is not routed is skipped like any
  unrouted item. Here the job 1000 has no Name; the job 2001 behind it is provisioned and
  the checkpoint advances.
\<close>

theorem C10_unrouted_nameless_counterexample:
  "wfx_get envUnrouted [DateNow 1000, DateNow 1010] (Str ''cached'') 0 1010
     = Resolved [\<lparr>ID = Str ''1000'', Name = Undefined, DateCreated = Some 5\<rparr>,
                 \<lparr>ID = Str ''2001'', Name = Str ''Alpha'', DateCreated = Some 5\<rparr>]
   \<and> pollCycle envUnrouted stReady
     = stReady\<lparr>lastChecked := 1050,
         trace := [DateNow 1000, DateNow 1010, WfxGet (Str ''cached'') 0 1010,
           GetMetadata ''/isa project jobs (2-5)/2001 - ALPHA'',
           CopyV2 TEMPLATE_PATH ''/isa project jobs (2-5)/2001 - ALPHA'', DateNow 1050]\<rparr>"
  by (simp add: eval_cycle eval_format envUnrouted_def envBatch_def envA_def stReady_def
        readyFolders_def cachedTokens_def)

text \<open>
  C10, amended: an item whose ID is not a string throws a TypeError at
  \<^verbatim>\<open>jobNo.split\<close>; an item that is new in its batch throws a RangeError at
  \<^verbatim>\<open>created.toISOString()\<close> when its creation date is invalid, and, when the date is valid
  and the item is routed to a resolved folder, a TypeError at \<^verbatim>\<open>jobName.replace\<close> when its
  Name is not a string. The exception leaves the loop, so the items behind it are not
  processed; it is caught by the handler of the cycle, and \<open>lastChecked\<close> is left
  unchanged. An item without Name is skipped without an exception when it repeats an
  identifier of its batch, or when it has a valid creation date and is not routed.
\<close>

theorem C10_malformed_item_aborts_cycle:
  "(\<not> isString (ID j) \<longrightarrow> processJob env fids j seen tr = (Some TypeError, seen, tr))
   \<and> (ID j = Str jobNo \<and> jobNo \<notin> set seen \<and> DateCreated j = Some created
      \<and> selectDestinationFolder fids (Str jobNo) = Inr (Some dest) \<and> \<not> isString (Name j) \<longrightarrow>
      processJob env fids j seen tr = (Some TypeError, seen @ [jobNo], tr))
   \<and> (ID j = Str jobNo \<and> jobNo \<notin> set seen \<and> DateCreated j = Some created
      \<and> selectDestinationFolder fids (Str jobNo) = Inr None \<longrightarrow>
      processJob env fids j seen tr = (None, seen @ [jobNo], tr))
   \<and> (ID j = Str jobNo \<and> jobNo \<in> set seen \<longrightarrow>
      processJob env fids j seen tr = (None, seen, tr))
   \<and> (ID j = Str jobNo \<and> jobNo \<notin> set seen \<and> DateCreated j = None \<longrightarrow>
      processJob env fids j seen tr = (Some RangeError, seen @ [jobNo], tr))
   \<and> (processJobs env fids pre seen0 tr0 = (None, seen, tr)
      \<and> processJob env fids j seen tr = (Some e, seen', tr') \<longrightarrow>
      processJobs env fids (pre @ j # post) seen0 tr0 = (Some e, seen', tr'))
   \<and> (getValidAccessToken env st = (Inr tok, st1)
      \<and> wfx_get env (trace st1 @ [DateNow (clock env (trace st1))]) tok (lastChecked st1)
           (clock env (trace st1)) = Resolved jobs
      \<and> processJobs env (folderIds st1) jobs []
           (trace st1 @ [DateNow (clock env (trace st1)),
                         WfxGet tok (lastChecked st1) (clock env (trace st1))])
          = (Some e, seenT, trT) \<longrightarrow>
      lastChecked (pollCycle env st) = lastChecked st
      \<and> (pollCycle env st = st \<or> pollCycle env st = st1\<lparr>trace := trT\<rparr>))"
  using processJob_no_id[of j env fids seen tr]
        processJob_no_name[of j jobNo seen created fids dest env tr]
        processJob_unrouted[of j jobNo seen created fids env tr]
        processJob_repeated[of j jobNo seen env fids tr]
        processJob_invalid_date[of j jobNo seen env fids tr]
        processJobs_stops[of env fids pre seen0 tr0 seen tr j e seen' tr' post]
        pollCycle_thrown[of env st tok st1 jobs e seenT trT]
  by blast

theorem C10_malformed_item_aborts_cycle_witness:
  "processJob envNameless (Some readyFolders)
       \<lparr>ID = Str ''2002'', Name = Undefined, DateCreated = Some 5\<rparr> [''2001'']
       [GetMetadata ''/isa project jobs (2-5)/2001 - ALPHA'']
     = (Some TypeError, [''2001'', ''2002''], [GetMetadata ''/isa project jobs (2-5)/2001 - ALPHA''])
   \<and> processJob envNameless (Some readyFolders)
       \<lparr>ID = Undefined, Name = Str ''Alpha'', DateCreated = Some 5\<rparr> [] []
     = (Some TypeError, [], [])
   \<and> processJob envNameless (Some readyFolders)
       \<lparr>ID = Str ''1000'', Name = Undefined, DateCreated = Some 5\<rparr> [] []
     = (None, [''1000''], [])
   \<and> processJob envNameless (Some readyFolders)
       \<lparr>ID = Str ''2002'', Name = Undefined, DateCreated = Some 5\<rparr> [''2002''] []
     = (None, [''2002''], [])
   \<and> processJob envNameless (Some readyFolders)
       \<lparr>ID = Str ''1000'', Name = Undefined, DateCreated = None\<rparr> [] []
     = (Some RangeError, [''1000''], [])
   \<and> processJobs envNameless (Some readyFolders)
       [\<lparr>ID = Str ''2001'', Name = Str ''Alpha'', DateCreated = Some 5\<rparr>,
        \<lparr>ID = Str ''2002'', Name = Undefined, DateCreated = Some 5\<rparr>,
        \<lparr>ID = Str ''2003'', Name = Str ''Gamma'', DateCreated = Some 5\<rparr>] []
       [DateNow 1000, DateNow 1010, WfxGet (Str ''cached'') 0 1010]
     = (Some TypeError, [''2001'', ''2002''],
        [DateNow 1000, DateNow 1010, WfxGet (Str ''cached'') 0 1010,
         GetMetadata ''/isa project jobs (2-5)/2001 - ALPHA'',
         CopyV2 TEMPLATE_PATH ''/isa project jobs (2-5)/2001 - ALPHA''])
   \<and> lastChecked (pollCycle envNameless stReady) = 0
   \<and> pollCycle envNameless stReady
     = stReady\<lparr>trace := [DateNow 1000, DateNow 1010, WfxGet (Str ''cached'') 0 1010,
           GetMetadata ''/isa project jobs (2-5)/2001 - ALPHA'',
           CopyV2 TEMPLATE_PATH ''/isa project jobs (2-5)/2001 - ALPHA'']\<rparr>"
proof -
  let ?good = "\<lparr>ID = Str ''2001'', Name = Str ''Alpha'', DateCreated = Some (5::int)\<rparr>"
  let ?bad = "\<lparr>ID = Str ''2002'', Name = Undefined, DateCreated = Some (5::int)\<rparr>"
  let ?last = "\<lparr>ID = Str ''2003'', Name = Str ''Gamma'', DateCreated = Some (5::int)\<rparr>"
  let ?noid = "\<lparr>ID = Undefined, Name = Str ''Alpha'', DateCreated = Some (5::int)\<rparr>"
  let ?unrouted = "\<lparr>ID = Str ''1000'', Name = Undefined, DateCreated = Some (5::int)\<rparr>"
  let ?tr3 = "[DateNow 1000, DateNow 1010, WfxGet (Str ''cached'') 0 1010]"
  let ?tr4 = "[DateNow 1000, DateNow 1010, WfxGet (Str ''cached'') 0 1010,
           GetMetadata ''/isa project jobs (2-5)/2001 - ALPHA'',
           CopyV2 TEMPLATE_PATH ''/isa project jobs (2-5)/2001 - ALPHA'']"
  note main = C10_malformed_item_aborts_cycle
  have route: "selectDestinationFolder (Some readyFolders) (Str ''2002'')
                 = Inr (Some ''/isa project jobs (2-5)'')"
    by (simp add: folderPathFor_def readyFolders_def KEY_PROJECT_JOBS_def KEY_SURVEY_def
          KEY_SURVEYORS_def)
  have 1: "processJob envNameless (Some readyFolders) ?bad [''2001'']
             [GetMetadata ''/isa project jobs (2-5)/2001 - ALPHA'']
     = (Some TypeError, [''2001'', ''2002''], [GetMetadata ''/isa project jobs (2-5)/2001 - ALPHA''])"
    using route
      main[where j = ?bad and jobNo = "''2002''" and seen = "[''2001'']"
        and created = 5 and fids = "Some readyFolders" and dest = "''/isa project jobs (2-5)''"
        and env = envNameless and tr = "[GetMetadata ''/isa project jobs (2-5)/2001 - ALPHA'']"]
    by simp
  have 2: "processJob envNameless (Some readyFolders) ?noid [] [] = (Some TypeError, [], [])"
    using main[where j = ?noid and seen = "[]" and tr = "[]"
        and env = envNameless and fids = "Some readyFolders"]
    by simp
  have 3: "processJob envNameless (Some readyFolders) ?unrouted [] [] = (None, [''1000''], [])"
    using main[where j = ?unrouted and jobNo = "''1000''" and seen = "[]" and tr = "[]"
        and created = 5 and env = envNameless and fids = "Some readyFolders"]
    by simp
  have 6: "processJob envNameless (Some readyFolders) ?bad [''2002''] [] = (None, [''2002''], [])"
    using main[where j = ?bad and jobNo = "''2002''" and seen = "[''2002'']" and tr = "[]"
        and env = envNameless and fids = "Some readyFolders"]
    by simp
  have 7: "processJob envNameless (Some readyFolders)
             \<lparr>ID = Str ''1000'', Name = Undefined, DateCreated = None\<rparr> [] []
           = (Some RangeError, [''1000''], [])"
    using main[where j = "\<lparr>ID = Str ''1000'', Name = Undefined, DateCreated = None\<rparr>"
        and jobNo = "''1000''" and seen = "[]" and tr = "[]"
        and env = envNameless and fids = "Some readyFolders"]
    by simp
  have pre: "processJobs envNameless (Some readyFolders) [?good] [] ?tr3 = (None, [''2001''], ?tr4)"
    by (simp add: eval_cycle eval_format envNameless_def envBatch_def envA_def readyFolders_def)
  have bad: "processJob envNameless (Some readyFolders) ?bad [''2001''] ?tr4
               = (Some TypeError, [''2001'', ''2002''], ?tr4)"
    using route
      main[where j = ?bad and jobNo = "''2002''" and seen = "[''2001'']"
        and created = 5 and fids = "Some readyFolders" and dest = "''/isa project jobs (2-5)''"
        and env = envNameless and tr = ?tr4]
    by simp
  have 4: "processJobs envNameless (Some readyFolders) [?good, ?bad, ?last] [] ?tr3
             = (Some TypeError, [''2001'', ''2002''], ?tr4)"
    using pre bad
      main[where env = envNameless and fids = "Some readyFolders" and pre = "[?good]"
        and ?seen0.0 = "[]" and ?tr0.0 = ?tr3 and seen = "[''2001'']" and tr = ?tr4 and j = ?bad
        and e = TypeError and seen' = "[''2001'', ''2002'']" and tr' = ?tr4 and post = "[?last]"]
    by simp
  have g: "getValidAccessToken envNameless stReady
             = (Inr (Str ''cached''), stReady\<lparr>trace := [DateNow 1000]\<rparr>)"
    by (simp add: eval_token envNameless_def envBatch_def envA_def stReady_def cachedTokens_def)
  have f: "wfx_get envNameless [DateNow 1000, DateNow 1010] (Str ''cached'') 0 1010
             = Resolved [?good, ?bad, ?last]
           \<and> clock envNameless [DateNow 1000] = 1010"
    by (simp add: envNameless_def envBatch_def envA_def)
  have s: "lastChecked stReady = 0 \<and> folderIds stReady = Some readyFolders"
    by (simp add: stReady_def)
  have 5: "lastChecked (pollCycle envNameless stReady) = 0"
    using g f s 4
      main[where env = envNameless and st = stReady and tok = "Str ''cached''"
        and ?st1.0 = "stReady\<lparr>trace := [DateNow 1000]\<rparr>" and jobs = "[?good, ?bad, ?last]"
        and e = TypeError and seenT = "[''2001'', ''2002'']" and trT = ?tr4]
    by simp
  have cyc: "pollCycle envNameless stReady = stReady\<lparr>trace := ?tr4\<rparr>"
    by (simp add: eval_cycle eval_format envNameless_def envBatch_def envA_def stReady_def
          readyFolders_def cachedTokens_def)
  from 1 2 3 4 5 6 7 cyc show ?thesis by simp
qed

lemma baseJobFolderPattern_literal:
  "\<not> list_ex isSyntaxChar base \<Longrightarrow> baseJobFolderPattern env base = Inr (matchesBase base)"
  by (simp add: baseJobFolderPattern_def)

lemma checkExistingJobFolders_listed:
  "list_folder env tr dest = Resolved listed \<Longrightarrow>
   checkExistingJobFolders env tr dest (matchesBase base)
     = (map e_name (siblingsOf base (case listed of None \<Rightarrow> [] | Some es \<Rightarrow> es)),
        tr @ [ListFolder dest])"
  by (simp add: checkExistingJobFolders_def siblingsOf_def Let_def)

lemma checkExistingJobFolders_failed:
  "list_folder env tr dest = Rejected u \<Longrightarrow>
   checkExistingJobFolders env tr dest pattern = ([], tr @ [ListFolder dest])"
  by (simp add: checkExistingJobFolders_def Let_def)

lemma sibling_skips:
  assumes "CHR ''_'' \<in> set jobNo"
    and "\<not> list_ex isSyntaxChar (takeWhile (\<lambda>c. c \<noteq> CHR ''_'') jobNo)"
    and "list_folder env tr dest = Resolved listed"
    and "siblingsOf (takeWhile (\<lambda>c. c \<noteq> CHR ''_'') jobNo)
           (case listed of None \<Rightarrow> [] | Some es \<Rightarrow> es) \<noteq> []"
  shows "provisionUnlessSibling env tr jobNo dest name = (None, tr @ [ListFolder dest])"
  using assms
  by (simp add: provisionUnlessSibling_def baseJobFolderPattern_literal
        checkExistingJobFolders_listed)

lemma no_sibling_provisions:
  assumes "CHR ''_'' \<in> set jobNo"
    and "\<not> list_ex isSyntaxChar (takeWhile (\<lambda>c. c \<noteq> CHR ''_'') jobNo)"
    and "list_folder env tr dest = Resolved listed"
    and "siblingsOf (takeWhile (\<lambda>c. c \<noteq> CHR ''_'') jobNo)
           (case listed of None \<Rightarrow> [] | Some es \<Rightarrow> es) = []"
  shows "provisionUnlessSibling env tr jobNo dest name
           = (None, snd (createFolderFromTemplate env (tr @ [ListFolder dest]) dest name))"
  using assms
  by (simp add: provisionUnlessSibling_def baseJobFolderPattern_literal
        checkExistingJobFolders_listed)

lemma failed_listing_provisions:
  assumes "CHR ''_'' \<in> set jobNo"
    and "\<not> list_ex isSyntaxChar (takeWhile (\<lambda>c. c \<noteq> CHR ''_'') jobNo)"
    and "list_folder env tr dest = Rejected u"
  shows "provisionUnlessSibling env tr jobNo dest name
           = (None, snd (createFolderFromTemplate env (tr @ [ListFolder dest]) dest name))"
  using assms
  by (simp add: provisionUnlessSibling_def baseJobFolderPattern_literal
        checkExistingJobFolders_failed)

lemma no_suffix_no_listing:
  assumes "CHR ''_'' \<notin> set jobNo"
  shows "provisionUnlessSibling env tr jobNo dest name
           = (None, snd (createFolderFromTemplate env tr dest name))
         \<and> list_all isProvisionCall
             (newCalls tr (snd (provisionUnlessSibling env tr jobNo dest name)))"
proof -
  obtain cs where "snd (createFolderFromTemplate env tr dest name)
                     = tr @ CopyV2 TEMPLATE_PATH (dest @ ''/'' @ name) # cs"
      "list_all isProvisionCall cs"
    using createFolderFromTemplate_calls by blast
  with assms show ?thesis by (simp add: provisionUnlessSibling_def)
qed

text \<open>
  C5, as stated: an item with a suffix is skipped whenever the destination parent holds a
  folder of its base identifier. The source learns the parent's folders from one listing
  call and treats a failed call as an empty listing: here the folder "9000549 - ALPHA"
  exists, the listing is rejected, and the item 9000549_1 is provisioned.
\<close>

theorem C5_failed_listing_counterexample:
  "fst (checkFolderExists envListDown [] ''/isa surveyors pty ltd (6 or 9)'' ''9000549 - ALPHA'')
   \<and> matchesBase ''9000549'' ''9000549 - ALPHA''
   \<and> processJob envListDown (Some readyFolders)
        \<lparr>ID = Str ''9000549_1'', Name = Str ''Alpha'', DateCreated = Some 5\<rparr> [] []
      = (None, [''9000549_1''],
         [GetMetadata ''/isa surveyors pty ltd (6 or 9)/9000549_1 - ALPHA'',
          ListFolder ''/isa surveyors pty ltd (6 or 9)'',
          CopyV2 TEMPLATE_PATH ''/isa surveyors pty ltd (6 or 9)/9000549_1 - ALPHA''])"
  by (simp add: eval_cycle eval_format envListDown_def envBatch_def envA_def readyFolders_def)

text \<open>
  C5, amended: for an item that reaches the screen (routed, its exact-name check negative)
  and whose identifier has an underscore and a base identifier, the text before the first
  underscore, free of regular-expression syntax characters: if the listing of the
  destination parent succeeds and shows a folder whose name matches, ignoring case, the
  base identifier followed by optional white space and a hyphen, the item is skipped
  without provisioning; if the listing succeeds and shows no such folder, or the listing
  fails, the item proceeds to provisioning. An item whose identifier has no underscore is
  provisioned without any listing.
\<close>

theorem C5_base_identifier_screen:
  "(CHR ''_'' \<in> set jobNo \<and> \<not> list_ex isSyntaxChar (takeWhile (\<lambda>c. c \<noteq> CHR ''_'') jobNo)
      \<and> list_folder env tr dest = Resolved listed
      \<and> siblingsOf (takeWhile (\<lambda>c. c \<noteq> CHR ''_'') jobNo)
           (case listed of None \<Rightarrow> [] | Some es \<Rightarrow> es) \<noteq> [] \<longrightarrow>
      provisionUnlessSibling env tr jobNo dest name = (None, tr @ [ListFolder dest]))
   \<and> (CHR ''_'' \<in> set jobNo \<and> \<not> list_ex isSyntaxChar (takeWhile (\<lambda>c. c \<noteq> CHR ''_'') jobNo)
      \<and> list_folder env tr dest = Resolved listed
      \<and> siblingsOf (takeWhile (\<lambda>c. c \<noteq> CHR ''_'') jobNo)
           (case listed of None \<Rightarrow> [] | Some es \<Rightarrow> es) = [] \<longrightarrow>
      provisionUnlessSibling env tr jobNo dest name
        = (None, snd (createFolderFromTemplate env (tr @ [ListFolder dest]) dest name)))
   \<and> (CHR ''_'' \<in> set jobNo \<and> \<not> list_ex isSyntaxChar (takeWhile (\<lambda>c. c \<noteq> CHR ''_'') jobNo)
      \<and> list_folder env tr dest = Rejected u \<longrightarrow>
      provisionUnlessSibling env tr jobNo dest name
        = (None, snd (createFolderFromTemplate env (tr @ [ListFolder dest]) dest name)))
   \<and> (CHR ''_'' \<notin> set jobNo \<longrightarrow>
      provisionUnlessSibling env tr jobNo dest name
        = (None, snd (createFolderFromTemplate env tr dest name))
      \<and> list_all isProvisionCall
          (newCalls tr (snd (provisionUnlessSibling env tr jobNo dest name))))"
  using sibling_skips[of jobNo env tr dest listed name]
        no_sibling_provisions[of jobNo env tr dest listed name]
        failed_listing_provisions[of jobNo env tr dest u name]
        no_suffix_no_listing[of jobNo env tr dest name]
  by blast

theorem C5_base_identifier_screen_witness:
  "provisionUnlessSibling envSibling [] ''9000549_1'' ''/isa surveyors pty ltd (6 or 9)''
       ''9000549_1 - ALPHA''
     = (None, [ListFolder ''/isa surveyors pty ltd (6 or 9)''])
   \<and> provisionUnlessSibling envSibling [] ''9000550_1'' ''/isa surveyors pty ltd (6 or 9)''
       ''9000550_1 - BETA''
     = (None, [ListFolder ''/isa surveyors pty ltd (6 or 9)'',
               CopyV2 TEMPLATE_PATH ''/isa surveyors pty ltd (6 or 9)/9000550_1 - BETA''])
   \<and> provisionUnlessSibling envSibling [] ''9000549'' ''/isa surveyors pty ltd (6 or 9)''
       ''9000549 - ALPHA''
     = (None, [CopyV2 TEMPLATE_PATH ''/isa surveyors pty ltd (6 or 9)/9000549 - ALPHA''])
   \<and> provisionUnlessSibling envListDown [] ''9000549_1'' ''/isa surveyors pty ltd (6 or 9)''
       ''9000549_1 - ALPHA''
     = (None, [ListFolder ''/isa surveyors pty ltd (6 or 9)'',
               CopyV2 TEMPLATE_PATH ''/isa surveyors pty ltd (6 or 9)/9000549_1 - ALPHA''])
   \<and> processJob envSibling (Some readyFolders)
        \<lparr>ID = Str ''9000549_1'', Name = Str ''Alpha'', DateCreated = Some 5\<rparr> [] []
     = (None, [''9000549_1''],
        [GetMetadata ''/isa surveyors pty ltd (6 or 9)/9000549_1 - ALPHA'',
         ListFolder ''/isa surveyors pty ltd (6 or 9)''])"
proof -
  let ?dest = "''/isa surveyors pty ltd (6 or 9)''"
  have l: "list_folder envSibling [] ?dest = Resolved (Some [alphaFolder])"
    by (simp add: envSibling_def envBatch_def envA_def)
  have b1: "CHR ''_'' \<in> set ''9000549_1''
      \<and> takeWhile (\<lambda>c. c \<noteq> CHR ''_'') ''9000549_1'' = ''9000549''
      \<and> \<not> list_ex isSyntaxChar ''9000549''
      \<and> siblingsOf ''9000549'' [alphaFolder] = [alphaFolder]"
    by (simp add: isSyntaxChar_def siblingsOf_def alphaFolder_def matchesBase_def
          toUpperCase_def toUpperChar_def isSpace_def)
  have b2: "CHR ''_'' \<in> set ''9000550_1''
      \<and> takeWhile (\<lambda>c. c \<noteq> CHR ''_'') ''9000550_1'' = ''9000550''
      \<and> \<not> list_ex isSyntaxChar ''9000550''
      \<and> siblingsOf ''9000550'' [alphaFolder] = []"
    by (simp add: isSyntaxChar_def siblingsOf_def alphaFolder_def matchesBase_def
          toUpperCase_def toUpperChar_def isSpace_def)
  have b3: "CHR ''_'' \<notin> set ''9000549''" by simp
  have c2: "snd (createFolderFromTemplate envSibling ([] @ [ListFolder ?dest]) ?dest
                   ''9000550_1 - BETA'')
      = [ListFolder ?dest, CopyV2 TEMPLATE_PATH ''/isa surveyors pty ltd (6 or 9)/9000550_1 - BETA'']"
    by (simp add: createFolderFromTemplate_def Let_def envSibling_def envBatch_def envA_def)
  have c3: "snd (createFolderFromTemplate envSibling [] ?dest ''9000549 - ALPHA'')
      = [CopyV2 TEMPLATE_PATH ''/isa surveyors pty ltd (6 or 9)/9000549 - ALPHA'']"
    by (simp add: createFolderFromTemplate_def Let_def envSibling_def envBatch_def envA_def)
  have 1: "provisionUnlessSibling envSibling [] ''9000549_1'' ?dest ''9000549_1 - ALPHA''
     = (None, [ListFolder ?dest])"
    using l b1
      C5_base_identifier_screen[where jobNo = "''9000549_1''" and env = envSibling and tr = "[]"
        and dest = ?dest and listed = "Some [alphaFolder]" and name = "''9000549_1 - ALPHA''"]
    by simp
  have 2: "provisionUnlessSibling envSibling [] ''9000550_1'' ?dest ''9000550_1 - BETA''
     = (None, [ListFolder ?dest,
               CopyV2 TEMPLATE_PATH ''/isa surveyors pty ltd (6 or 9)/9000550_1 - BETA''])"
    using l b2 c2
      C5_base_identifier_screen[where jobNo = "''9000550_1''" and env = envSibling and tr = "[]"
        and dest = ?dest and listed = "Some [alphaFolder]" and name = "''9000550_1 - BETA''"]
    by simp
  have 3: "provisionUnlessSibling envSibling [] ''9000549'' ?dest ''9000549 - ALPHA''
     = (None, [CopyV2 TEMPLATE_PATH ''/isa surveyors pty ltd (6 or 9)/9000549 - ALPHA''])"
    using b3 c3
      C5_base_identifier_screen[where jobNo = "''9000549''" and env = envSibling and tr = "[]"
        and dest = ?dest and name = "''9000549 - ALPHA''"]
    by simp
  have 4: "processJob envSibling (Some readyFolders)
        \<lparr>ID = Str ''9000549_1'', Name = Str ''Alpha'', DateCreated = Some 5\<rparr> [] []
     = (None, [''9000549_1''],
        [GetMetadata ''/isa surveyors pty ltd (6 or 9)/9000549_1 - ALPHA'',
         ListFolder ''/isa surveyors pty ltd (6 or 9)''])"
    by (simp add: eval_cycle eval_format envSibling_def envBatch_def envA_def readyFolders_def
          alphaFolder_def)
  have l5: "list_folder envListDown [] ?dest = Rejected ()"
    by (simp add: envListDown_def envBatch_def envA_def)
  have c5: "snd (createFolderFromTemplate envListDown ([] @ [ListFolder ?dest]) ?dest
                   ''9000549_1 - ALPHA'')
      = [ListFolder ?dest, CopyV2 TEMPLATE_PATH ''/isa surveyors pty ltd (6 or 9)/9000549_1 - ALPHA'']"
    by (simp add: createFolderFromTemplate_def Let_def envListDown_def envBatch_def envA_def)
  have 5: "provisionUnlessSibling envListDown [] ''9000549_1'' ?dest ''9000549_1 - ALPHA''
     = (None, [ListFolder ?dest,
               CopyV2 TEMPLATE_PATH ''/isa surveyors pty ltd (6 or 9)/9000549_1 - ALPHA''])"
    using l5 b1 c5
      C5_base_identifier_screen[where jobNo = "''9000549_1''" and env = envListDown and tr = "[]"
        and dest = ?dest and u = "()" and name = "''9000549_1 - ALPHA''"]
    by simp
  from 1 2 3 4 5 show ?thesis by simp
qed

end
